theory Spec2Isabelle
  imports Complex_Main "HOL-Library.Word" "HOL-Library.Char_ord" "HOL-Library.List_Lexorder"
begin

section \<open>The MVTec dataset store of fcdd (python/fcdd/datasets/mvtec_base.py)\<close>

text \<open>
  The class \<^verbatim>\<open>MvTec\<close> builds a cached archive from a directory tree of images
  (\<^verbatim>\<open>download\<close>), loads one split of it (\<^verbatim>\<open>__init__\<close>), serves samples
  (\<^verbatim>\<open>__getitem__\<close>) and gives the ground-truth maps of one class in their original
  resolution (\<^verbatim>\<open>get_original_gtmaps_normal_class\<close>).

  Every Python exception is a value of \<open>error\<close>; a function that can raise returns
  \<open>error + 'a\<close> with \<open>Inl\<close> for the exception. Printing and logging are left out.
\<close>

subsection \<open>Values\<close>

datatype error =
  AssertionError | IndexError | KeyError | TypeError | AttributeError | ValueError
  | FileNotFoundError | NotADirectoryError | IsADirectoryError | IOError | RuntimeError

text \<open>
  A \<^verbatim>\<open>torch.uint8\<close> tensor is a nested list of bytes, outermost dimension first:
  an image is channels x height x width, a ground-truth map is height x width. Arithmetic
  on \<open>8 word\<close> wraps as the arithmetic of a uint8 tensor does. Labels are Python or
  int32 values and stay far below the int32 range; they are \<open>int\<close>.
\<close>

type_synonym byte = "8 word"
type_synonym img_t = "byte list list list"
type_synonym map_t = "byte list list"

text \<open>
  A float tensor holds \<open>real\<close> values: the rounding of float32 is not modelled. The
  functions below compare float pixels with the constants 0, 1 and -3 and store label
  values in them, which float32 does exactly.
\<close>

type_synonym fimg_t = "real list list list"
type_synonym fmap_t = "real list list"

text \<open>What the joint transform \<^verbatim>\<open>all_transform\<close> may hand back: tensors of either dtype.\<close>

datatype any_img = ByteImg img_t | FloatImg fimg_t
datatype any_gt = ByteGt map_t | FloatGt fmap_t

text \<open>
  After lines 93-94 the image and the map are PIL images: an image of mode RGB is its rows
  of red, green, blue pixels, an image of mode L its rows of grey values, the top row
  first. The paired transform \<^verbatim>\<open>img_gt_transform\<close> and the image transform
  \<^verbatim>\<open>transform\<close> come from outside and in the pipeline end with \<^verbatim>\<open>ToTensor\<close>, which
  gives float tensors (a map becomes 1 x height x width). The values they hand on are of
  these two kinds here: a PIL image or a float tensor.
\<close>

datatype img_val = PilImg "(byte \<times> byte \<times> byte) list list" | TensorImg fimg_t
datatype gt_val = PilGt map_t | TensorGt fimg_t

text \<open>
  The size of a tensor of three dimensions, read off its first channel and first row
  (a tensor is rectangular).
\<close>

definition size3 :: "'a list list list \<Rightarrow> nat \<times> nat \<times> nat" where
  "size3 t =
     (length t,
      (case t of [] \<Rightarrow> 0 | c # _ \<Rightarrow> length c),
      (case t of [] \<Rightarrow> 0 | c # _ \<Rightarrow> (case c of [] \<Rightarrow> 0 | r # _ \<Rightarrow> length r)))"

text \<open>
  \<^verbatim>\<open>img_gt_transform\<close> is a composition object: line 176 reads its attribute
  \<^verbatim>\<open>transforms\<close> and asks of which class each member is; line 97 calls it.
\<close>

datatype transform_class = Resize | ToTensor | OtherTransform

record compose =
  transforms :: "transform_class list"
  call :: "img_val \<times> gt_val \<Rightarrow> img_val \<times> gt_val"

text \<open>The keys of the dictionary that \<^verbatim>\<open>download\<close> saves and \<^verbatim>\<open>__init__\<close> loads.\<close>

record archive =
  train_data :: "img_t list"
  train_labels :: "int list"
  test_data :: "img_t list"
  test_labels :: "int list"
  test_maps :: "map_t list"
  test_anomaly_labels :: "int list"
  anomaly_label_strings :: "string list"

text \<open>
  The attributes of an \<^verbatim>\<open>MvTec\<close> object (\<^verbatim>\<open>self\<close>). \<open>root_dir\<close> is the
  attribute \<^verbatim>\<open>root\<close> and \<open>label_strings\<close> the attribute \<^verbatim>\<open>anomaly_label_strings\<close>.
\<close>

record mvtec =
  root_dir :: string
  split :: string
  target_transform :: "(int \<Rightarrow> int) option"
  img_gt_transform :: "compose option"
  transform :: "(img_val \<Rightarrow> img_val) option"
  all_transform :: "(img_t \<times> map_t \<times> int \<Rightarrow> any_img \<times> any_gt \<times> int) option"
  shape :: "nat \<times> nat \<times> nat"
  enlarge :: bool
  orig_gtmaps :: "real list list list list option"
  normal_classes :: "int list"
  nominal_label :: int
  anom_label :: int
  label_strings :: "string list"
  data :: "img_t list"
  targets :: "int list"
  gt :: "map_t list option"
  anomaly_labels :: "int list option"

subsection \<open>Indexing\<close>

text \<open>
  \<^verbatim>\<open>t[index]\<close> on the first dimension of a tensor (or on a tuple): a negative index
  counts from the end, an index out of range raises IndexError.
\<close>

definition tensor_get :: "'a list \<Rightarrow> int \<Rightarrow> error + 'a" where
  "tensor_get xs i =
     (if 0 \<le> i \<and> i < int (length xs) then Inr (xs ! nat i)
      else if i < 0 \<and> - int (length xs) \<le> i then Inr (xs ! nat (int (length xs) + i))
      else Inl IndexError)"

subsection \<open>Sample retrieval: \<^verbatim>\<open>__getitem__\<close>\<close>

text \<open>
  Lines 72-75. In the split \<^verbatim>\<open>test_anomaly_label_target\<close> line 73 calls
  \<^verbatim>\<open>self.target_transform\<close> on the defect-category id without asking whether it is
  None (calling None raises TypeError); line 74-75 then applies the transform, when there
  is one, to whatever label line 73 left.
\<close>

definition getitem_label :: "mvtec \<Rightarrow> int \<Rightarrow> int \<Rightarrow> error + int" where
  "getitem_label self index label0 =
     (case (if split self = ''test_anomaly_label_target'' then
              (case anomaly_labels self of
                 None \<Rightarrow> Inl TypeError
               | Some als \<Rightarrow>
                   (case tensor_get als index of
                      Inl e \<Rightarrow> Inl e
                    | Inr a \<Rightarrow>
                        (case target_transform self of
                           None \<Rightarrow> Inl TypeError
                         | Some f \<Rightarrow> Inr (f a))))
            else Inr label0) of
        Inl e \<Rightarrow> Inl e
      | Inr label \<Rightarrow>
          (case target_transform self of
             None \<Rightarrow> Inr label
           | Some f \<Rightarrow> Inr (f label)))"

text \<open>
  Line 82, \<^verbatim>\<open>(torch.ones_like(img)[0] * gtinitlbl).mul(255).byte()\<close>: a uint8 map of
  the height and width of the image; every pixel is 1 times the label times 255 in uint8
  arithmetic. An image with no channel has no index 0.
\<close>

definition ones_like :: "img_t \<Rightarrow> img_t" where
  "ones_like img = map (map (map (\<lambda>_. 1))) img"

definition synth_gt :: "img_t \<Rightarrow> int \<Rightarrow> error + map_t" where
  "synth_gt img gtinitlbl =
     (case tensor_get (ones_like img) 0 of
        Inl e \<Rightarrow> Inl e
      | Inr ones \<Rightarrow> Inr (map (map (\<lambda>p. (p * word_of_int gtinitlbl) * 255)) ones))"

text \<open>Lines 77-84: the map is made up for a train view without maps, else read.\<close>

definition getitem_gt :: "mvtec \<Rightarrow> int \<Rightarrow> img_t \<Rightarrow> int \<Rightarrow> error + map_t" where
  "getitem_gt self index img label =
     (if split self = ''train'' \<and> gt self = None then
        (if anom_label self \<in> {0, 1} then
           synth_gt img (if anom_label self = 1 then label else 1 - label)
         else Inl AssertionError)
      else
        (case gt self of
           None \<Rightarrow> Inl TypeError
         | Some g \<Rightarrow> tensor_get g index))"

text \<open>
  Lines 88-89 bring what the joint transform returned back to uint8. For a float map,
  \<^verbatim>\<open>gt.mul(255).byte()\<close>; for a float image, the values are scaled to the range from
  0 to 255 by their minimum and maximum (\<^verbatim>\<open>min()\<close> of an empty tensor raises).
  \<^verbatim>\<open>byte()\<close> drops the fraction and wraps.
\<close>

definition to_byte :: "real \<Rightarrow> byte" where
  "to_byte x = word_of_int (if 0 \<le> x then \<lfloor>x\<rfloor> else \<lceil>x\<rceil>)"

definition rebinarize_gt :: "any_gt \<Rightarrow> map_t" where
  "rebinarize_gt g =
     (case g of
        ByteGt m \<Rightarrow> m
      | FloatGt m \<Rightarrow> map (map (\<lambda>x. to_byte (x * 255))) m)"

definition rebinarize_img :: "any_img \<Rightarrow> error + img_t" where
  "rebinarize_img i =
     (case i of
        ByteImg m \<Rightarrow> Inr m
      | FloatImg m \<Rightarrow>
          (case concat (concat m) of
             [] \<Rightarrow> Inl RuntimeError
           | x # xs \<Rightarrow>
               (let lo = fold min xs x; hi = fold max xs x
                in Inr (map (map (map (\<lambda>y. to_byte ((y - lo) / (hi - lo) * 255)))) m))))"

definition getitem_all_transform ::
  "mvtec \<Rightarrow> img_t \<times> map_t \<times> int \<Rightarrow> error + img_t \<times> map_t \<times> int" where
  "getitem_all_transform self x =
     (case all_transform self of
        None \<Rightarrow> Inr x
      | Some f \<Rightarrow>
          (case f x of (img, g, label) \<Rightarrow>
             (let g' = rebinarize_gt g
              in case rebinarize_img img of
                   Inl e \<Rightarrow> Inl e
                 | Inr img' \<Rightarrow> Inr (img', g', label))))"

text \<open>
  Lines 102-105. \<^verbatim>\<open>gt[gt == c] = v\<close> on a tensor stores \<open>v\<close> in every pixel that
  equals \<open>c\<close>. A PIL image compares unequal to a number and takes no item assignment:
  TypeError.
\<close>

definition masked_assign :: "fimg_t \<Rightarrow> real \<Rightarrow> real \<Rightarrow> fimg_t" where
  "masked_assign t c v = map (map (map (\<lambda>p. if p = c then v else p))) t"

definition relabel_gt :: "int \<Rightarrow> int \<Rightarrow> gt_val \<Rightarrow> error + gt_val" where
  "relabel_gt nominal anom g =
     (if nominal \<noteq> 0 then
        (case g of
           PilGt m \<Rightarrow> Inl TypeError
         | TensorGt t \<Rightarrow>
             (let t1 = masked_assign t 0 (-3);
                  t2 = masked_assign t1 1 (real_of_int anom);
                  t3 = masked_assign t2 (-3) (real_of_int nominal)
              in Inr (TensorGt t3)))
      else Inr g)"

text \<open>Lines 70-84: the image, the label and the map before any transform of the image.\<close>

definition getitem_raw :: "mvtec \<Rightarrow> int \<Rightarrow> error + img_t \<times> int \<times> map_t" where
  "getitem_raw self index =
     (case tensor_get (data self) index of
        Inl e \<Rightarrow> Inl e
      | Inr img \<Rightarrow>
     (case tensor_get (targets self) index of
        Inl e \<Rightarrow> Inl e
      | Inr label0 \<Rightarrow>
     (case getitem_label self index label0 of
        Inl e \<Rightarrow> Inl e
      | Inr label \<Rightarrow>
     (case getitem_gt self index img label of
        Inl e \<Rightarrow> Inl e
      | Inr g \<Rightarrow> Inr (img, label, g)))))"

text \<open>
  Line 93. The two transpositions turn the tensor of c x h x w into the array of
  h x w x c, and \<^verbatim>\<open>Image.fromarray(..., mode='RGB')\<close> reads the bytes of that array,
  row by row, three at a time as the pixels of an image w wide and h high. \<open>array_byte\<close>
  is the byte at a position of the array. With three channels every pixel gets the three
  channel values of its place; with fewer channels there are not enough bytes and PIL
  raises ValueError (unless the image has no pixel at all); with more channels the bytes
  are still taken three at a time.
\<close>

definition array_byte :: "img_t \<Rightarrow> nat \<Rightarrow> byte" where
  "array_byte img i =
     (case size3 img of (c, h, w) \<Rightarrow> img ! (i mod c) ! (i div c div w) ! (i div c mod w))"

definition fromarray_rgb :: "img_t \<Rightarrow> error + (byte \<times> byte \<times> byte) list list" where
  "fromarray_rgb img =
     (case size3 img of (c, h, w) \<Rightarrow>
        if h * w * c < h * w * 3 then Inl ValueError
        else Inr (map (\<lambda>y. map (\<lambda>x. (array_byte img (3 * (y * w + x)),
                                      array_byte img (3 * (y * w + x) + 1),
                                      array_byte img (3 * (y * w + x) + 2)))
                                [0..<w])
                    [0..<h]))"

text \<open>
  Line 94. \<^verbatim>\<open>gt.squeeze(0)\<close> drops the first dimension of a map of height 1, and
  \<^verbatim>\<open>Image.fromarray\<close> makes of an array of one dimension an image 1 wide and as high
  as the array is long: a map of one row becomes a column. Every other map keeps its rows.
\<close>

definition fromarray_l :: "map_t \<Rightarrow> map_t" where
  "fromarray_l g = (case g of [r] \<Rightarrow> map (\<lambda>p. [p]) r | _ \<Rightarrow> g)"

text \<open>
  Lines 86-100: the joint transform, the PIL images, the paired transform and the image
  transform. The label swap of the map is still to come.
\<close>

definition getitem_transformed :: "mvtec \<Rightarrow> int \<Rightarrow> error + img_val \<times> int \<times> gt_val" where
  "getitem_transformed self index =
     (case getitem_raw self index of
        Inl e \<Rightarrow> Inl e
      | Inr (img, label, g) \<Rightarrow>
     (case getitem_all_transform self (img, g, label) of
        Inl e \<Rightarrow> Inl e
      | Inr (img1, g1, label1) \<Rightarrow>
     (case fromarray_rgb img1 of
        Inl e \<Rightarrow> Inl e
      | Inr pil_img \<Rightarrow>
          (let pil_gt = fromarray_l g1;
               (img2, g2) =
                 (case img_gt_transform self of
                    None \<Rightarrow> (PilImg pil_img, PilGt pil_gt)
                  | Some c \<Rightarrow> call c (PilImg pil_img, PilGt pil_gt));
               img3 = (case transform self of None \<Rightarrow> img2 | Some f \<Rightarrow> f img2)
           in Inr (img3, label1, g2)))))"

definition getitem :: "mvtec \<Rightarrow> int \<Rightarrow> error + img_val \<times> int \<times> gt_val" where
  "getitem self index =
     (case getitem_transformed self index of
        Inl e \<Rightarrow> Inl e
      | Inr (img, label, g) \<Rightarrow>
          (case relabel_gt (nominal_label self) (anom_label self) g of
             Inl e \<Rightarrow> Inl e
           | Inr g' \<Rightarrow> Inr (img, label, g')))"

text \<open>\<^verbatim>\<open>__len__\<close>.\<close>

definition len :: "mvtec \<Rightarrow> nat" where
  "len self = length (data self)"

subsection \<open>The world outside the class\<close>

text \<open>
  The extracted archive is a directory tree. A directory lists its entries by name in
  the order \<^verbatim>\<open>os.listdir\<close> gives them, which is arbitrary; a file is an image as
  \<^verbatim>\<open>Image.open(f).convert('RGB')\<close> reads it (rows of red, green, blue pixels) or
  something PIL cannot read.
\<close>

datatype image_file = ImageFile "(byte \<times> byte \<times> byte) list list" | NotAnImage

datatype node = File image_file | Dir "(string \<times> node) list"

fun walk :: "node \<Rightarrow> string list \<Rightarrow> error + node" where
  "walk n [] = Inr n"
| "walk (File f) (p # ps) = Inl NotADirectoryError"
| "walk (Dir es) (p # ps) =
     (case map_of es p of None \<Rightarrow> Inl FileNotFoundError | Some c \<Rightarrow> walk c ps)"

definition listdir :: "node \<Rightarrow> string list \<Rightarrow> error + string list" where
  "listdir tmp_dir path =
     (case walk tmp_dir path of
        Inl e \<Rightarrow> Inl e
      | Inr (File f) \<Rightarrow> Inl NotADirectoryError
      | Inr (Dir es) \<Rightarrow> Inr (map fst es))"

text \<open>\<^verbatim>\<open>open(path, 'rb')\<close> followed by \<^verbatim>\<open>Image.open(f)\<close>.\<close>

definition open_image ::
  "node \<Rightarrow> string list \<Rightarrow> error + (byte \<times> byte \<times> byte) list list" where
  "open_image tmp_dir path =
     (case walk tmp_dir path of
        Inl e \<Rightarrow> Inl e
      | Inr (Dir es) \<Rightarrow> Inl IsADirectoryError
      | Inr (File NotAnImage) \<Rightarrow> Inl IOError
      | Inr (File (ImageFile rows)) \<Rightarrow> Inr rows)"

text \<open>
  \<open>interpolate\<close> is \<^verbatim>\<open>torch.nn.functional.interpolate\<close> on one image, with the
  conversions to float and back to uint8 around it (lines 237-240): it belongs to torch
  and is a parameter here. \<open>fetched\<close> is the tree that \<^verbatim>\<open>download_and_extract_archive\<close>
  leaves in the temporary directory, or the exception it raises. \<open>files\<close> holds what
  \<^verbatim>\<open>torch.save\<close> has written, by path.
\<close>

record env =
  interpolate :: "img_t \<Rightarrow> nat \<times> nat \<Rightarrow> img_t"
  fetched :: "error + node"
  files :: "string \<Rightarrow> archive option"

subsection \<open>Class constants and file names\<close>

definition labels :: "string list" where
  "labels =
     [''bottle'', ''cable'', ''capsule'', ''carpet'', ''grid'', ''hazelnut'', ''leather'',
      ''metal_nut'', ''pill'', ''screw'', ''tile'', ''toothbrush'', ''transistor'',
      ''wood'', ''zipper'']"

definition base_folder :: string where
  "base_folder = ''mvtec''"

definition normal_anomaly_label :: string where
  "normal_anomaly_label = ''good''"

definition normal_anomaly_label_idx :: int where
  "normal_anomaly_label_idx = 0"

text \<open>\<^verbatim>\<open>'{}'.format(n)\<close> for an integer: decimal digits, a minus sign when negative.\<close>

fun str_nat :: "nat \<Rightarrow> string" where
  "str_nat n =
     (if n < 10 then [char_of (48 + n)]
      else str_nat (n div 10) @ [char_of (48 + n mod 10)])"

declare str_nat.simps [simp del]

definition str_int :: "int \<Rightarrow> string" where
  "str_int i = (if i < 0 then CHR ''-'' # str_nat (nat (- i)) else str_nat (nat i))"

text \<open>
  \<^verbatim>\<open>os.path.join\<close> on POSIX: a component that starts with a slash discards what
  precedes it; a separator is added unless the left part is empty or ends with one.
\<close>

definition path_join :: "string \<Rightarrow> string \<Rightarrow> string" where
  "path_join a b =
     (if b \<noteq> [] \<and> hd b = CHR ''/'' then b
      else if a = [] \<or> last a = CHR ''/'' then a @ b
      else a @ ''/'' @ b)"

definition filename :: "mvtec \<Rightarrow> string" where
  "filename self =
     (case shape self of (c, h, w) \<Rightarrow> ''admvtec_'' @ str_nat h @ ''x'' @ str_nat w @ ''.pt'')"

definition data_file :: "mvtec \<Rightarrow> string" where
  "data_file self = path_join (path_join (root_dir self) base_folder) (filename self)"

definition orig_filename :: "int \<Rightarrow> string" where
  "orig_filename cls = ''admvtec_orig_cls'' @ str_int cls @ ''.pt''"

definition orig_data_file :: "mvtec \<Rightarrow> int \<Rightarrow> string" where
  "orig_data_file self cls = path_join (path_join (root_dir self) base_folder) (orig_filename cls)"

text \<open>
  \<^verbatim>\<open>img_name.replace('.png', '_mask.png')\<close>: every occurrence, from the left,
  without overlap. (The pattern is never empty here.)
\<close>

function str_replace :: "string \<Rightarrow> string \<Rightarrow> string \<Rightarrow> string" where
  "str_replace old new s =
     (if s = [] \<or> old = [] then s
      else if take (length old) s = old then new @ str_replace old new (drop (length old) s)
      else hd s # str_replace old new (tl s))"
  by pat_completeness auto
termination
  by (relation "measure (\<lambda>(old, new, s). length s)") auto

declare str_replace.simps [simp del]

definition convert_img_name_to_mask_name :: "string \<Rightarrow> string" where
  "convert_img_name_to_mask_name img_name = str_replace ''.png'' ''_mask.png'' img_name"

text \<open>
  \<^verbatim>\<open>img_to_torch\<close>: the rows of pixels become a tensor of three channels (the two
  transpositions), resized when a shape is given.
\<close>

definition img_to_torch ::
  "env \<Rightarrow> (byte \<times> byte \<times> byte) list list \<Rightarrow> (nat \<times> nat) option \<Rightarrow> img_t" where
  "img_to_torch w rows shp =
     (let t = [map (map fst) rows, map (map (fst \<circ> snd)) rows, map (map (snd \<circ> snd)) rows]
      in case shp of None \<Rightarrow> t | Some hw \<Rightarrow> interpolate w t hw)"

definition zeros_like :: "img_t \<Rightarrow> img_t" where
  "zeros_like t = map (map (map (\<lambda>_. 0))) t"

text \<open>\<^verbatim>\<open>torch.stack\<close> wants at least one tensor and all tensors of one size.\<close>

definition stack :: "'a list list list list \<Rightarrow> error + 'a list list list list" where
  "stack ts =
     (case ts of
        [] \<Rightarrow> Inl RuntimeError
      | t # _ \<Rightarrow> if list_all (\<lambda>u. size3 u = size3 t) ts then Inr ts else Inl RuntimeError)"

subsection \<open>The dataset builder: \<^verbatim>\<open>download\<close>\<close>

text \<open>A \<^verbatim>\<open>for\<close> loop whose body may raise: the first exception ends it.\<close>

fun for_each :: "'a list \<Rightarrow> ('a \<Rightarrow> 's \<Rightarrow> error + 's) \<Rightarrow> 's \<Rightarrow> error + 's" where
  "for_each [] body s = Inr s"
| "for_each (x # xs) body s =
     (case body x s of Inl e \<Rightarrow> Inl e | Inr s' \<Rightarrow> for_each xs body s')"

text \<open>
  The local lists of lines 119-121. The dictionary \<^verbatim>\<open>albl_idmap\<close> is an association
  list in insertion order, as a Python dict keeps its items.
\<close>

record build =
  train_data_list :: "img_t list"
  train_labels_list :: "int list"
  test_data_list :: "img_t list"
  test_labels_list :: "int list"
  test_maps_list :: "img_t list"
  test_anomaly_labels_list :: "int list"
  albl_idmap :: "(string \<times> int) list"

definition build_init :: build where
  "build_init =
     \<lparr>train_data_list = [], train_labels_list = [], test_data_list = [],
      test_labels_list = [], test_maps_list = [], test_anomaly_labels_list = [],
      albl_idmap = [(normal_anomaly_label, normal_anomaly_label_idx)]\<rparr>"

text \<open>Lines 128-143, the body of the loop over the files of one test directory.\<close>

definition test_sample ::
  "env \<Rightarrow> node \<Rightarrow> (nat \<times> nat) option \<Rightarrow> int option \<Rightarrow> int \<Rightarrow> string \<Rightarrow> string \<Rightarrow> string
     \<Rightarrow> build \<Rightarrow> error + build" where
  "test_sample w tmp_dir shp cls lbl_idx lbl anomaly_label img_name b =
     (case open_image tmp_dir [lbl, ''test'', anomaly_label, img_name] of
        Inl e \<Rightarrow> Inl e
      | Inr pic \<Rightarrow>
          (let sample = img_to_torch w pic shp
           in case (if anomaly_label \<noteq> normal_anomaly_label then
                      (case open_image tmp_dir
                              [lbl, ''ground_truth'', anomaly_label,
                               convert_img_name_to_mask_name img_name] of
                         Inl e \<Rightarrow> Inl e
                       | Inr m \<Rightarrow> Inr (img_to_torch w m shp))
                    else Inr (zeros_like sample)) of
                Inl e \<Rightarrow> Inl e
              | Inr mask_t \<Rightarrow>
                  (let idmap = (if map_of (albl_idmap b) anomaly_label = None
                                then albl_idmap b @ [(anomaly_label, int (length (albl_idmap b)))]
                                else albl_idmap b)
                   in case map_of idmap anomaly_label of
                        None \<Rightarrow> Inl KeyError
                      | Some i \<Rightarrow>
                          Inr (b\<lparr>test_data_list := test_data_list b @ [sample],
                                 test_labels_list := test_labels_list b @
                                   [case cls of Some c \<Rightarrow> c | None \<Rightarrow> lbl_idx],
                                 test_maps_list := test_maps_list b @ [mask_t],
                                 test_anomaly_labels_list := test_anomaly_labels_list b @ [i],
                                 albl_idmap := idmap\<rparr>))))"

text \<open>Lines 147-151, the body of the loop over the files of one train directory.\<close>

definition train_sample ::
  "env \<Rightarrow> node \<Rightarrow> (nat \<times> nat) option \<Rightarrow> int \<Rightarrow> string \<Rightarrow> string \<Rightarrow> string
     \<Rightarrow> build \<Rightarrow> error + build" where
  "train_sample w tmp_dir shp lbl_idx lbl anomaly_label img_name b =
     (case open_image tmp_dir [lbl, ''train'', anomaly_label, img_name] of
        Inl e \<Rightarrow> Inl e
      | Inr pic \<Rightarrow>
          Inr (b\<lparr>train_data_list := train_data_list b @ [img_to_torch w pic shp],
                 train_labels_list := train_labels_list b @ [lbl_idx]\<rparr>))"

text \<open>Lines 126-127 and 145-146: the sorted directories and, in each, the sorted files.\<close>

definition for_each_file ::
  "node \<Rightarrow> string \<Rightarrow> string \<Rightarrow> (string \<Rightarrow> string \<Rightarrow> build \<Rightarrow> error + build)
     \<Rightarrow> build \<Rightarrow> error + build" where
  "for_each_file tmp_dir lbl part body b =
     (case listdir tmp_dir [lbl, part] of
        Inl e \<Rightarrow> Inl e
      | Inr dirs \<Rightarrow>
          for_each (sort dirs)
            (\<lambda>anomaly_label b1.
               case listdir tmp_dir [lbl, part, anomaly_label] of
                 Inl e \<Rightarrow> Inl e
               | Inr names \<Rightarrow> for_each (sort names) (body anomaly_label) b1)
            b)"

text \<open>Lines 123-151, the body of the loop over the classes.\<close>

definition process_label ::
  "env \<Rightarrow> node \<Rightarrow> (nat \<times> nat) option \<Rightarrow> int option \<Rightarrow> int \<times> string
     \<Rightarrow> build \<Rightarrow> error + build" where
  "process_label w tmp_dir shp cls il b =
     (case il of (lbl_idx, lbl) \<Rightarrow>
        (case for_each_file tmp_dir lbl ''test''
                (test_sample w tmp_dir shp cls lbl_idx lbl) b of
           Inl e \<Rightarrow> Inl e
         | Inr b1 \<Rightarrow>
             for_each_file tmp_dir lbl ''train''
               (train_sample w tmp_dir shp lbl_idx lbl) b1))"

definition enumerate_from0 :: "'a list \<Rightarrow> (int \<times> 'a) list" where
  "enumerate_from0 xs = zip (map int [0..<length xs]) xs"

text \<open>Lines 153-164: the dictionary that is saved.\<close>

definition assemble :: "build \<Rightarrow> error + archive" where
  "assemble b =
     (let anomaly_labels_sorted = map fst (sort_key snd (albl_idmap b))
      in case stack (train_data_list b) of
           Inl e \<Rightarrow> Inl e
         | Inr trd \<Rightarrow>
        (case stack (test_data_list b) of
           Inl e \<Rightarrow> Inl e
         | Inr ted \<Rightarrow>
        (case stack (test_maps_list b) of
           Inl e \<Rightarrow> Inl e
         | Inr tem \<Rightarrow>
             (if list_all (\<lambda>m. m \<noteq> []) tem then
                Inr \<lparr>train_data = trd, train_labels = train_labels_list b,
                     test_data = ted, test_labels = test_labels_list b,
                     test_maps = map (\<lambda>m. m ! 0) tem,
                     test_anomaly_labels = test_anomaly_labels_list b,
                     anomaly_label_strings = anomaly_labels_sorted\<rparr>
              else Inl IndexError))))"

text \<open>Lines 119-164: from the extracted tree to the dictionary.\<close>

definition build_archive ::
  "env \<Rightarrow> node \<Rightarrow> (nat \<times> nat) option \<Rightarrow> int option \<Rightarrow> error + archive" where
  "build_archive w tmp_dir shp cls =
     (case (case cls of
              None \<Rightarrow> Inr labels
            | Some c \<Rightarrow> (case tensor_get labels c of Inl e \<Rightarrow> Inl e | Inr l \<Rightarrow> Inr [l])) of
        Inl e \<Rightarrow> Inl e
      | Inr ls \<Rightarrow>
          (case for_each (enumerate_from0 ls) (process_label w tmp_dir shp cls) build_init of
             Inl e \<Rightarrow> Inl e
           | Inr b \<Rightarrow> assemble b))"

text \<open>
  \<^verbatim>\<open>download\<close>. The path is \<^verbatim>\<open>self.data_file\<close> when a shape is given and
  \<^verbatim>\<open>self.orig_data_file(cls)\<close> otherwise (lines 114 and 165); \<^verbatim>\<open>check_integrity\<close>
  without a checksum asks whether the file is there. An exception leaves the files as
  they were: saving is the last step.
\<close>

definition cache_path :: "mvtec \<Rightarrow> (nat \<times> nat) option \<Rightarrow> int option \<Rightarrow> string" where
  "cache_path self shp cls =
     (case shp of
        Some _ \<Rightarrow> data_file self
      | None \<Rightarrow> (case cls of Some c \<Rightarrow> orig_data_file self c | None \<Rightarrow> []))"

definition download :: "mvtec \<Rightarrow> env \<Rightarrow> (nat \<times> nat) option \<Rightarrow> int option \<Rightarrow> error + env" where
  "download self w shp cls =
     (if shp = None \<and> cls = None then Inl AssertionError
      else if files w (cache_path self shp cls) = None then
        (case fetched w of
           Inl e \<Rightarrow> Inl e
         | Inr tmp_dir \<Rightarrow>
             (case build_archive w tmp_dir shp cls of
                Inl e \<Rightarrow> Inl e
              | Inr a \<Rightarrow> Inr (w\<lparr>files := (files w)(cache_path self shp cls \<mapsto> a)\<rparr>)))
      else Inr w)"

subsection \<open>Construction: \<^verbatim>\<open>__init__\<close>\<close>

record args =
  arg_root :: string
  arg_split :: string
  arg_target_transform :: "(int \<Rightarrow> int) option"
  arg_img_gt_transform :: "compose option"
  arg_transform :: "(img_val \<Rightarrow> img_val) option"
  arg_all_transform :: "(img_t \<times> map_t \<times> int \<Rightarrow> any_img \<times> any_gt \<times> int) option"
  arg_download :: bool
  arg_shape :: "nat \<times> nat \<times> nat"
  arg_enlarge :: bool
  arg_normal_classes :: "int list"
  arg_nominal_label :: int
  arg_anomalous_label :: int

text \<open>\<^verbatim>\<open>verify_str_arg\<close> of torchvision: the value must be one of the valid ones.\<close>

definition verify_str_arg :: "string \<Rightarrow> string list \<Rightarrow> error + string" where
  "verify_str_arg v valid = (if v \<in> set valid then Inr v else Inl ValueError)"

text \<open>\<^verbatim>\<open>t.repeat(n, 1, ...)\<close>: \<open>n\<close> copies of the tensor one after the other.\<close>

definition repeat :: "nat \<Rightarrow> 'a list \<Rightarrow> 'a list" where
  "repeat n xs = concat (replicate n xs)"

text \<open>Lines 33-43: the attributes before anything is loaded.\<close>

definition init_fields :: "args \<Rightarrow> string \<Rightarrow> mvtec" where
  "init_fields a s =
     \<lparr>root_dir = arg_root a, split = s, target_transform = arg_target_transform a,
      img_gt_transform = arg_img_gt_transform a, transform = arg_transform a,
      all_transform = arg_all_transform a, shape = arg_shape a, enlarge = arg_enlarge a,
      orig_gtmaps = None, normal_classes = arg_normal_classes a,
      nominal_label = arg_nominal_label a, anom_label = arg_anomalous_label a,
      label_strings = [], data = [], targets = [], gt = None, anomaly_labels = None\<rparr>"

text \<open>Lines 49-56: the fields of the split are taken from the loaded dictionary.\<close>

definition load_split :: "mvtec \<Rightarrow> archive \<Rightarrow> mvtec" where
  "load_split self d =
     (if split self = ''train'' then
        self\<lparr>label_strings := anomaly_label_strings d,
             data := train_data d, targets := train_labels d,
             gt := None, anomaly_labels := None\<rparr>
      else
        self\<lparr>label_strings := anomaly_label_strings d,
             data := test_data d, targets := test_labels d,
             gt := Some (test_maps d), anomaly_labels := Some (test_anomaly_labels d)\<rparr>)"

text \<open>Lines 58-62.\<close>

definition enlarge10 :: "mvtec \<Rightarrow> mvtec" where
  "enlarge10 self =
     (if enlarge self then
        self\<lparr>data := repeat 10 (data self), targets := repeat 10 (targets self),
             gt := (case gt self of Some g \<Rightarrow> Some (repeat 10 g) | None \<Rightarrow> None),
             anomaly_labels :=
               (case anomaly_labels self of Some a \<Rightarrow> Some (repeat 10 a) | None \<Rightarrow> None),
             orig_gtmaps :=
               (case orig_gtmaps self of Some m \<Rightarrow> Some (repeat 10 m) | None \<Rightarrow> None)\<rparr>
      else self)"

text \<open>Lines 33-62: everything of \<^verbatim>\<open>__init__\<close> before the assertion on the labels.\<close>

definition init_load :: "args \<Rightarrow> env \<Rightarrow> error + mvtec \<times> env" where
  "init_load a w =
     (case verify_str_arg (arg_split a) [''train'', ''test'', ''test_anomaly_label_target''] of
        Inl e \<Rightarrow> Inl e
      | Inr s \<Rightarrow>
          (let self = init_fields a s
           in case (if arg_download a
                    then download self w (Some (snd (shape self))) None
                    else Inr w) of
                Inl e \<Rightarrow> Inl e
              | Inr w' \<Rightarrow>
                  (case files w' (data_file self) of
                     None \<Rightarrow> Inl FileNotFoundError
                   | Some d \<Rightarrow> Inr (enlarge10 (load_split self d), w'))))"

text \<open>\<^verbatim>\<open>__init__\<close>, with lines 64-66 at the end.\<close>

definition init :: "args \<Rightarrow> env \<Rightarrow> error + mvtec \<times> env" where
  "init a w =
     (case init_load a w of
        Inl e \<Rightarrow> Inl e
      | Inr (self, w') \<Rightarrow>
          (if nominal_label self \<noteq> 0 then
             (if - 3 \<notin> set [nominal_label self, anom_label self] then Inr (self, w')
              else Inl AssertionError)
           else Inr (self, w')))"

subsection \<open>\<^verbatim>\<open>get_original_gtmaps_normal_class\<close>\<close>

text \<open>
  The result, the object and the files afterwards. \<^verbatim>\<open>unsqueeze(1)\<close> wraps every map
  in a dimension of size one; \<^verbatim>\<open>div(255)\<close> gives floats.
\<close>

definition unsqueeze_div255 :: "map_t list \<Rightarrow> real list list list list" where
  "unsqueeze_div255 ms = map (\<lambda>m. [map (map (\<lambda>p. real (unat p) / 255)) m]) ms"

definition get_original_gtmaps_normal_class ::
  "mvtec \<Rightarrow> env \<Rightarrow> (error + real list list list list) \<times> mvtec \<times> env" where
  "get_original_gtmaps_normal_class self w =
     (if split self = ''train'' then (Inl AssertionError, self, w)
      else if length (normal_classes self) \<noteq> 1 then (Inl AssertionError, self, w)
      else if all_transform self \<noteq> None then (Inl AssertionError, self, w)
      else
        (case img_gt_transform self of
           None \<Rightarrow> (Inl AttributeError, self, w)
         | Some c \<Rightarrow>
             if \<not> list_all (\<lambda>t. t = Resize \<or> t = ToTensor) (transforms c)
             then (Inl AssertionError, self, w)
             else
               (case orig_gtmaps self of
                  Some m \<Rightarrow> (Inr m, self, w)
                | None \<Rightarrow>
                    (case tensor_get (normal_classes self) 0 of
                       Inl e \<Rightarrow> (Inl e, self, w)
                     | Inr cls \<Rightarrow>
                         (case download self w None (Some cls) of
                            Inl e \<Rightarrow> (Inl e, self, w)
                          | Inr w' \<Rightarrow>
                              (case files w' (orig_data_file self cls) of
                                 None \<Rightarrow> (Inl FileNotFoundError, self, w')
                               | Some orig_ds \<Rightarrow>
                                   (let m = unsqueeze_div255 (test_maps orig_ds)
                                    in (Inr m, self\<lparr>orig_gtmaps := Some m\<rparr>, w'))))))))"

subsection \<open>The order of traversal\<close>

text \<open>
  The sorted names of a directory (nothing when it cannot be listed), and the defect
  category of every test sample of a class in the order of lines 126-127: the
  directories of \<^verbatim>\<open>test\<close> in lexicographic order, each once for every file in it.
\<close>

definition sorted_entries :: "node \<Rightarrow> string list \<Rightarrow> string list" where
  "sorted_entries tmp_dir path =
     (case listdir tmp_dir path of Inl e \<Rightarrow> [] | Inr names \<Rightarrow> sort names)"

definition test_categories :: "node \<Rightarrow> string \<Rightarrow> string list" where
  "test_categories tmp_dir lbl =
     concat (map (\<lambda>anomaly_label.
                    map (\<lambda>img_name. anomaly_label)
                      (sorted_entries tmp_dir [lbl, ''test'', anomaly_label]))
               (sorted_entries tmp_dir [lbl, ''test'']))"

text \<open>The classes that \<^verbatim>\<open>download\<close> walks through (line 123), once the index is valid.\<close>

definition classes_of :: "int option \<Rightarrow> string list" where
  "classes_of cls =
     (case cls of
        None \<Rightarrow> labels
      | Some c \<Rightarrow> (case tensor_get labels c of Inl e \<Rightarrow> [] | Inr l \<Rightarrow> [l]))"

text \<open>
  What holds of the lists of lines 119-121 once the test samples of the categories
  \<open>seen\<close> have been read, in this order: the lists of the test side have one entry for
  each, the two of the train side are equally long, the dictionary numbers its keys
  from 0 in the order of insertion, its keys are the normal category followed by the
  other categories in the order in which they were first seen, and the recorded ids name
  the categories seen.
\<close>

definition build_inv :: "build \<Rightarrow> string list \<Rightarrow> bool" where
  "build_inv b seen \<longleftrightarrow>
     length (test_data_list b) = length seen \<and>
     length (test_labels_list b) = length seen \<and>
     length (test_maps_list b) = length seen \<and>
     length (test_anomaly_labels_list b) = length seen \<and>
     length (train_data_list b) = length (train_labels_list b) \<and>
     map snd (albl_idmap b) = map int [0..<length (albl_idmap b)] \<and>
     map fst (albl_idmap b) =
       normal_anomaly_label #
         rev (remdups (rev (filter (\<lambda>l. l \<noteq> normal_anomaly_label) seen))) \<and>
     map (\<lambda>i. map fst (albl_idmap b) ! nat i) (test_anomaly_labels_list b) = seen \<and>
     list_all (\<lambda>i. 0 \<le> i \<and> i < int (length (albl_idmap b))) (test_anomaly_labels_list b)"

text \<open>What the three assignments of lines 103-105 together do to one pixel.\<close>

definition swapped_pixel :: "int \<Rightarrow> int \<Rightarrow> real \<Rightarrow> real" where
  "swapped_pixel nominal anom p =
     (if p = 0 \<or> p = - 3 then real_of_int nominal
      else if p = 1 then (if anom = - 3 then real_of_int nominal else real_of_int anom)
      else p)"

subsection \<open>Example inputs\<close>

text \<open>Label transforms: one that flips 0 and 1, and the one of a pipeline with swapped
  polarity, which sends the normal category 0 to the nominal label 1 and every defect
  category to the anomalous label 0.\<close>

definition flip_label :: "int \<Rightarrow> int" where
  "flip_label x = 1 - x"

definition swapped_polarity :: "int \<Rightarrow> int" where
  "swapped_polarity x = (if x \<noteq> 0 then 0 else 1)"

text \<open>A paired transform that does what \<^verbatim>\<open>ToTensor\<close> does to both PIL images.\<close>

definition to_tensor :: "img_val \<times> gt_val \<Rightarrow> img_val \<times> gt_val" where
  "to_tensor x =
     (case x of (i, g) \<Rightarrow>
        ((case i of
            PilImg rows \<Rightarrow>
              TensorImg [map (map (\<lambda>px. real (unat (fst px)) / 255)) rows,
                         map (map (\<lambda>px. real (unat (fst (snd px))) / 255)) rows,
                         map (map (\<lambda>px. real (unat (snd (snd px))) / 255)) rows]
          | TensorImg t \<Rightarrow> TensorImg t),
         (case g of
            PilGt m \<Rightarrow> TensorGt [map (map (\<lambda>b. real (unat b) / 255)) m]
          | TensorGt t \<Rightarrow> TensorGt t)))"

text \<open>A train view of two images of one row and two columns, the second one anomalous.\<close>

definition example_view :: mvtec where
  "example_view =
     \<lparr>root_dir = ''data'', split = ''train'', target_transform = None,
      img_gt_transform = Some \<lparr>transforms = [ToTensor], call = to_tensor\<rparr>,
      transform = None, all_transform = None, shape = (3, 1, 2), enlarge = False,
      orig_gtmaps = None, normal_classes = [0], nominal_label = 0, anom_label = 1,
      label_strings = [''good''],
      data = [[[[10, 20]], [[30, 40]], [[50, 60]]], [[[1, 2]], [[3, 4]], [[5, 6]]]],
      targets = [0, 1], gt = None, anomaly_labels = None\<rparr>"

text \<open>The same images as a view of the split with the defect category as label, with
  swapped polarity.\<close>

definition example_test_view :: mvtec where
  "example_test_view =
     example_view\<lparr>split := ''test_anomaly_label_target'',
       target_transform := Some swapped_polarity, nominal_label := 1, anom_label := 0,
       gt := Some [[[0, 0]], [[0, 255]]], anomaly_labels := Some [0, 1]\<rparr>"

text \<open>
  A tree in which every class has one train image, a normal test image and two test
  images of the defect \<^verbatim>\<open>crack\<close> with their masks; the directories list their
  entries out of order.
\<close>

definition example_class_dir :: node where
  "example_class_dir =
     Dir [(''train'', Dir [(''good'', Dir [(''000.png'', File (ImageFile [[(1, 2, 3)]]))])]),
          (''test'',
             Dir [(''good'', Dir [(''000.png'', File (ImageFile [[(4, 5, 6)]]))]),
                  (''crack'',
                     Dir [(''001.png'', File (ImageFile [[(7, 8, 9)]])),
                          (''000.png'', File (ImageFile [[(9, 8, 7)]]))])]),
          (''ground_truth'',
             Dir [(''crack'',
                     Dir [(''000_mask.png'', File (ImageFile [[(255, 255, 255)]])),
                          (''001_mask.png'', File (ImageFile [[(0, 0, 0)]]))])])]"

definition example_tree :: node where
  "example_tree = Dir (map (\<lambda>l. (l, example_class_dir)) labels)"

definition keep_size :: "img_t \<Rightarrow> nat \<times> nat \<Rightarrow> img_t" where
  "keep_size t hw = t"

text \<open>
  The files: the archive of the resolution 1 x 1 is there already (with three test
  samples), the archive of the original resolution of no class is.
\<close>

definition example_archive :: archive where
  "example_archive =
     \<lparr>train_data = [[[[1]], [[2]], [[3]]]], train_labels = [0],
      test_data = [[[[9]], [[8]], [[7]]], [[[7]], [[8]], [[9]]], [[[4]], [[5]], [[6]]]],
      test_labels = [0, 0, 0], test_maps = [[[255]], [[0]], [[0]]],
      test_anomaly_labels = [1, 1, 0], anomaly_label_strings = [''good'', ''crack'']\<rparr>"

definition example_env :: env where
  "example_env =
     \<lparr>interpolate = keep_size, fetched = Inr example_tree,
      files = [''data/mvtec/admvtec_1x1.pt'' \<mapsto> example_archive]\<rparr>"

definition example_args :: args where
  "example_args =
     \<lparr>arg_root = ''data'', arg_split = ''test'', arg_target_transform = None,
      arg_img_gt_transform = Some \<lparr>transforms = [Resize, ToTensor], call = to_tensor\<rparr>,
      arg_transform = None, arg_all_transform = None, arg_download = True,
      arg_shape = (3, 1, 1), arg_enlarge = True, arg_normal_classes = [3],
      arg_nominal_label = 0, arg_anomalous_label = 1\<rparr>"

text \<open>
  The view that \<^verbatim>\<open>__init__\<close> makes of the archive that is there, and the archive
  of the original resolution that the tree gives for the class 3 (\<^verbatim>\<open>carpet\<close>).
\<close>

definition example_loaded :: "args \<Rightarrow> mvtec" where
  "example_loaded a = enlarge10 (load_split (init_fields a (arg_split a)) example_archive)"

definition example_orig_archive :: archive where
  "example_orig_archive =
     \<lparr>train_data = [[[[1]], [[2]], [[3]]]], train_labels = [0],
      test_data = [[[[9]], [[8]], [[7]]], [[[7]], [[8]], [[9]]], [[[4]], [[5]], [[6]]]],
      test_labels = [3, 3, 3], test_maps = [[[255]], [[0]], [[0]]],
      test_anomaly_labels = [1, 1, 0], anomaly_label_strings = [''good'', ''crack'']\<rparr>"

section \<open>Sample retrieval\<close>

lemmas getitem_defs = getitem_def getitem_transformed_def getitem_raw_def getitem_label_def
  getitem_gt_def getitem_all_transform_def relabel_gt_def masked_assign_def synth_gt_def
  tensor_get_def ones_like_def

lemma fromarray_rgb_three_channels:
  assumes "size3 img = (3, h, w)"
  shows "fromarray_rgb img =
     Inr (map (\<lambda>y. map (\<lambda>x. (img ! 0 ! y ! x, img ! 1 ! y ! x, img ! 2 ! y ! x)) [0..<w])
            [0..<h])"
proof -
  have px: "array_byte img (3 * (y * w + x) + k) = img ! k ! y ! x" if "x < w" and "k < 3"
    for y x k
  proof -
    have "(3 * (y * w + x) + k) div 3 = y * w + x" using that(2) by presburger
    moreover have "(3 * (y * w + x) + k) mod 3 = k" using that(2) by presburger
    ultimately show ?thesis using that(1) by (simp add: array_byte_def assms)
  qed
  have "(array_byte img (3 * (y * w + x)), array_byte img (3 * (y * w + x) + 1),
         array_byte img (3 * (y * w + x) + 2)) = (img ! 0 ! y ! x, img ! 1 ! y ! x, img ! 2 ! y ! x)"
    if "x < w" for y x
    using px [OF that, of 0 y] px [OF that, of 1 y] px [OF that, of 2 y] by simp
  then show ?thesis by (simp add: fromarray_rgb_def assms)
qed

lemma example_fromarray_rgb:
  "fromarray_rgb [[[10, 20]], [[30, 40]], [[50, 60]]] = Inr [[(10, 30, 50), (20, 40, 60)]]"
  "fromarray_rgb [[[1, 2]], [[3, 4]], [[5, 6]]] = Inr [[(1, 3, 5), (2, 4, 6)]]"
  by code_simp+

lemma example_fromarray_l:
  "fromarray_l [[0, 0]] = [[0], [0]]"
  "fromarray_l [[0, 255]] = [[0], [255]]"
  by (simp_all add: fromarray_l_def)

lemma synth_gt_fill:
  "synth_gt img l = Inr g \<Longrightarrow> g = map (map (\<lambda>_. word_of_int l * 255)) (img ! 0)"
  by (auto simp: synth_gt_def tensor_get_def ones_like_def Let_def nth_map split: if_splits)

lemma three_assignments:
  "masked_assign (masked_assign (masked_assign t 0 (- 3)) 1 (real_of_int anom)) (- 3)
      (real_of_int nominal) = map (map (map (swapped_pixel nominal anom))) t"
  by (auto simp: masked_assign_def swapped_pixel_def)

text \<open>
  C1, as stated, fails. The label that decides the made-up map of a train view is the
  label after the label transform (line 75 comes before line 81), not the stored one. Here
  the stored label of sample 1 is 1, the transform flips it, and the map is filled with 0.
\<close>

theorem synth_gt_raw_label_counterexample:
  "tensor_get (targets (example_view\<lparr>target_transform := Some flip_label\<rparr>)) 1 = Inr 1 \<and>
   anom_label (example_view\<lparr>target_transform := Some flip_label\<rparr>) = 1 \<and>
   getitem_raw (example_view\<lparr>target_transform := Some flip_label\<rparr>) 1
     = Inr ([[[1, 2]], [[3, 4]], [[5, 6]]], 0, [[0, 0]])"
  by (simp add: example_view_def getitem_raw_def getitem_label_def getitem_gt_def synth_gt_def
        tensor_get_def ones_like_def flip_label_def)

text \<open>
  C1, amended. For a train view without stored maps, when lines 70-84 give a label 0 or 1,
  that label is the stored label after the label transform (the stored label itself when
  there is no transform), the anomalous label is 0 or 1 (line 78), and the map has the
  height and width of the image and is filled with 255 when the label equals the
  anomalous label and with 0 when it does not.
\<close>

theorem getitem_train_synth_gt:
  assumes "split self = ''train''" and "gt self = None"
    and "getitem_raw self index = Inr (img, label, g)"
    and "label \<in> {0, 1}"
  shows "(\<exists>raw. tensor_get (targets self) index = Inr raw \<and>
            label = (case target_transform self of None \<Rightarrow> raw | Some f \<Rightarrow> f raw)) \<and>
         anom_label self \<in> {0, 1} \<and>
         g = map (map (\<lambda>_. if label = anom_label self then 255 else 0)) (img ! 0)"
  using assms
  by (auto simp: getitem_raw_def getitem_label_def getitem_gt_def
           split: sum.splits option.splits if_splits dest!: synth_gt_fill)

theorem getitem_train_synth_gt_witness:
  "split example_view = ''train'' \<and> gt example_view = None \<and>
   getitem_raw example_view 1 = Inr ([[[1, 2]], [[3, 4]], [[5, 6]]], 1, [[255, 255]]) \<and>
   (1::int) \<in> {0, 1} \<and>
   (\<exists>raw. tensor_get (targets example_view) 1 = Inr raw \<and>
      (1::int) = (case target_transform example_view of None \<Rightarrow> raw | Some f \<Rightarrow> f raw)) \<and>
   anom_label example_view \<in> {0, 1} \<and>
   ([[255, 255]] :: map_t) =
     map (map (\<lambda>_. if (1::int) = anom_label example_view then 255 else 0))
       ([[[1, 2]], [[3, 4]], [[5, 6]]] ! 0 :: map_t)"
proof -
  have s: "split example_view = ''train''" and g: "gt example_view = None"
    by (simp_all add: example_view_def)
  have raw: "getitem_raw example_view 1 = Inr ([[[1, 2]], [[3, 4]], [[5, 6]]], 1, [[255, 255]])"
    by (simp add: example_view_def getitem_raw_def getitem_label_def getitem_gt_def
          synth_gt_def tensor_get_def ones_like_def)
  have l: "(1::int) \<in> {0, 1}" by simp
  from getitem_train_synth_gt [OF s g raw l] s g raw l show ?thesis by blast
qed

text \<open>
  C2: the code at a failing input. In the split that takes the defect category as label,
  line 73 applies the label transform and line 75 applies it again. With the transform of
  swapped polarity the normal category 0 of sample 0 should become the nominal label 1;
  the label returned is 0. Without a label transform line 73 calls None.
\<close>

theorem getitem_defect_label_transformed_twice:
  "tensor_get (the (anomaly_labels example_test_view)) 0 = Inr 0 \<and>
   swapped_polarity 0 = 1 \<and>
   map_sum id (fst \<circ> snd) (getitem example_test_view 0) = Inr 0 \<and>
   getitem (example_test_view\<lparr>target_transform := None\<rparr>) 0 = Inl TypeError"
  by (simp add: example_test_view_def example_view_def getitem_defs swapped_polarity_def
        to_tensor_def example_fromarray_rgb example_fromarray_l)

text \<open>
  C3. Whenever \<^verbatim>\<open>__getitem__\<close> returns, the image and the label are those of line 100
  and the map is, when the nominal label is 0, the map of line 100 unchanged, and
  otherwise a tensor in which every pixel of that map has gone through the three
  assignments: a pixel 0 is the nominal label (through the sentinel -3), a pixel 1 is the
  anomalous label (and the nominal label if the anomalous label is the sentinel itself), a
  pixel that was the sentinel already is the nominal label, every other pixel is as it was.
\<close>

theorem getitem_relabels_gt:
  assumes "getitem self index = Inr (img, label, g)"
  shows "\<exists>g0. getitem_transformed self index = Inr (img, label, g0) \<and>
          (if nominal_label self \<noteq> 0
           then \<exists>t. g0 = TensorGt t \<and>
                  g = TensorGt (map (map (map (\<lambda>p.
                        if p = 0 \<or> p = - 3 then real_of_int (nominal_label self)
                        else if p = 1 then
                          (if anom_label self = - 3 then real_of_int (nominal_label self)
                           else real_of_int (anom_label self))
                        else p))) t)
           else g = g0)"
proof -
  from assms obtain g0 where
    pre: "getitem_transformed self index = Inr (img, label, g0)" and
    post: "relabel_gt (nominal_label self) (anom_label self) g0 = Inr g"
    by (auto simp: getitem_def split: sum.splits)
  show ?thesis
  proof (cases "nominal_label self = 0")
    case True
    with post have "g = g0" by (simp add: relabel_gt_def)
    with pre True show ?thesis by simp
  next
    case False
    with post obtain t where t: "g0 = TensorGt t"
      by (cases g0) (simp_all add: relabel_gt_def)
    with post False have
      "g = TensorGt (map (map (map (swapped_pixel (nominal_label self) (anom_label self)))) t)"
      by (simp add: relabel_gt_def three_assignments)
    then have "g = TensorGt (map (map (map (\<lambda>p.
                        if p = 0 \<or> p = - 3 then real_of_int (nominal_label self)
                        else if p = 1 then
                          (if anom_label self = - 3 then real_of_int (nominal_label self)
                           else real_of_int (anom_label self))
                        else p))) t)"
      unfolding swapped_pixel_def .
    with pre t False show ?thesis by simp
  qed
qed

theorem getitem_relabels_gt_witness:
  "getitem example_test_view 1 =
     Inr (TensorImg [[[1 / 255, 2 / 255]], [[3 / 255, 4 / 255]], [[5 / 255, 6 / 255]]], 1,
          TensorGt [[[1], [0]]]) \<and>
   getitem_transformed example_test_view 1 =
     Inr (TensorImg [[[1 / 255, 2 / 255]], [[3 / 255, 4 / 255]], [[5 / 255, 6 / 255]]], 1,
          TensorGt [[[0], [1]]]) \<and>
   nominal_label example_test_view = 1 \<and> anom_label example_test_view = 0"
proof -
  have run: "getitem example_test_view 1 =
     Inr (TensorImg [[[1 / 255, 2 / 255]], [[3 / 255, 4 / 255]], [[5 / 255, 6 / 255]]], 1,
          TensorGt [[[1], [0]]])"
    by (simp add: example_test_view_def example_view_def getitem_defs swapped_polarity_def
          to_tensor_def example_fromarray_rgb example_fromarray_l)
  have pre: "getitem_transformed example_test_view 1 =
     Inr (TensorImg [[[1 / 255, 2 / 255]], [[3 / 255, 4 / 255]], [[5 / 255, 6 / 255]]], 1,
          TensorGt [[[0], [1]]])"
    by (simp add: example_test_view_def example_view_def getitem_defs swapped_polarity_def
          to_tensor_def example_fromarray_rgb example_fromarray_l)
  have cfg: "nominal_label example_test_view = 1 \<and> anom_label example_test_view = 0"
    by (simp add: example_test_view_def example_view_def)
  from getitem_relabels_gt [OF run] run pre cfg show ?thesis by simp
qed

text \<open>
  C4, as stated, fails. A map coded with 0 and 255 goes through the step with nominal
  label 0 unchanged, and through the step with nominal label 1 and anomalous label 0 with
  its pixels 0 turned into 1 and its pixels 255 left as they are: 0 and 255 are not
  swapped.
\<close>

theorem relabel_gt_255_counterexample:
  "(case relabel_gt 0 1 (TensorGt [[[0, 255]]]) of
      Inl e \<Rightarrow> Inl e
    | Inr g \<Rightarrow> relabel_gt 1 0 g) = Inr (TensorGt [[[1, 255]]])"
  by (simp add: relabel_gt_def masked_assign_def)

text \<open>
  C4, amended. For every map tensor with pixel values 0 and 1, the step with nominal
  label 0 and anomalous label 1 gives the map back, and the step with nominal label 1 and
  anomalous label 0 then gives the map with 0 and 1 swapped.
\<close>

theorem relabel_gt_swaps_01:
  assumes "list_all (list_all (list_all (\<lambda>p. p = 0 \<or> p = 1))) t"
  shows "relabel_gt 0 1 (TensorGt t) = Inr (TensorGt t) \<and>
         relabel_gt 1 0 (TensorGt t) = Inr (TensorGt (map (map (map (\<lambda>p. 1 - p))) t))"
proof -
  have px: "swapped_pixel 1 0 p = 1 - p" if "p = 0 \<or> p = 1" for p
    using that by (auto simp: swapped_pixel_def)
  have row: "map (swapped_pixel 1 0) r = map (\<lambda>p. 1 - p) r"
    if "list_all (\<lambda>p. p = 0 \<or> p = 1) r" for r
    using that by (induction r) (simp_all add: px)
  have chan: "map (map (swapped_pixel 1 0)) c = map (map (\<lambda>p. 1 - p)) c"
    if "list_all (list_all (\<lambda>p. p = 0 \<or> p = 1)) c" for c
    using that by (induction c) (simp_all add: row)
  have "map (map (map (swapped_pixel 1 0))) t = map (map (map (\<lambda>p. 1 - p))) t"
    using assms by (induction t) (simp_all add: chan)
  moreover have "relabel_gt 1 0 (TensorGt t) =
      Inr (TensorGt (map (map (map (swapped_pixel 1 0))) t))"
    using three_assignments [of t 0 1] by (simp add: relabel_gt_def)
  moreover have "relabel_gt 0 1 (TensorGt t) = Inr (TensorGt t)"
    by (simp add: relabel_gt_def)
  ultimately show ?thesis by simp
qed

theorem relabel_gt_swaps_01_witness:
  "list_all (list_all (list_all (\<lambda>p. p = 0 \<or> p = 1))) [[[0, 1], [1, 1]]] \<and>
   relabel_gt 0 1 (TensorGt [[[0, 1], [1, 1]]]) = Inr (TensorGt [[[0, 1], [1, 1]]]) \<and>
   relabel_gt 1 0 (TensorGt [[[0, 1], [1, 1]]]) = Inr (TensorGt [[[1, 0], [0, 0]]])"
proof -
  have h: "list_all (list_all (list_all (\<lambda>p. p = 0 \<or> p = 1))) [[[0, 1], [1, 1 :: real]]]"
    by simp
  from relabel_gt_swaps_01 [OF h] h show ?thesis by simp
qed

section \<open>The example inputs\<close>

lemma str_nat_1: "str_nat (Suc 0) = ''1''"
  by code_simp

lemma str_int_3: "str_int 3 = ''3''"
  by code_simp

lemma example_build:
  "build_archive example_env example_tree None (Some 3) = Inr example_orig_archive"
  by code_simp

lemma example_categories:
  "test_categories example_tree ''carpet'' = [''crack'', ''crack'', ''good'']"
  by code_simp

lemma example_class: "tensor_get labels 3 = Inr ''carpet''"
  by code_simp

lemma example_init_load:
  assumes "arg_root a = ''data''" and "arg_shape a = (3, 1, 1)" and "arg_download a"
    and "arg_split a \<in> set [''train'', ''test'', ''test_anomaly_label_target'']"
  shows "init_load a example_env = Inr (example_loaded a, example_env)"
proof -
  have p: "data_file (init_fields a (arg_split a)) = ''data/mvtec/admvtec_1x1.pt''"
    using assms(1,2)
    by (simp add: data_file_def filename_def path_join_def base_folder_def init_fields_def
          str_nat_1)
  have f: "files example_env ''data/mvtec/admvtec_1x1.pt'' = Some example_archive"
    by (simp add: example_env_def)
  show ?thesis
    using assms(3,4)
    by (simp add: init_load_def verify_str_arg_def Let_def download_def cache_path_def p f
          example_loaded_def)
qed

lemma example_loaded_labels:
  "nominal_label (example_loaded a) = arg_nominal_label a"
  "anom_label (example_loaded a) = arg_anomalous_label a"
  by (simp_all add: example_loaded_def enlarge10_def load_split_def init_fields_def)

lemma example_init:
  assumes "arg_root a = ''data''" and "arg_shape a = (3, 1, 1)" and "arg_download a"
    and "arg_split a \<in> set [''train'', ''test'', ''test_anomaly_label_target'']"
    and "arg_nominal_label a = 0"
  shows "init a example_env = Inr (example_loaded a, example_env)"
  using example_init_load [OF assms(1-4)] assms(5)
  by (simp add: init_def example_loaded_labels)

lemma example_orig_path:
  "root_dir v = ''data'' \<Longrightarrow> orig_data_file v 3 = ''data/mvtec/admvtec_orig_cls3.pt''"
  by (simp add: orig_data_file_def orig_filename_def path_join_def base_folder_def str_int_3)

lemma example_loaded_root: "root_dir (example_loaded a) = arg_root a"
  by (simp add: example_loaded_def enlarge10_def load_split_def init_fields_def)

lemma example_download:
  assumes "root_dir v = ''data''"
  shows "download v example_env None (Some 3) =
     Inr (example_env\<lparr>files := (files example_env)
            (''data/mvtec/admvtec_orig_cls3.pt'' \<mapsto> example_orig_archive)\<rparr>)"
proof -
  have p: "cache_path v None (Some 3) = ''data/mvtec/admvtec_orig_cls3.pt''"
    by (simp add: cache_path_def example_orig_path [OF assms])
  have f: "files example_env ''data/mvtec/admvtec_orig_cls3.pt'' = None"
    by (simp add: example_env_def)
  have t: "fetched example_env = Inr example_tree"
    by (simp add: example_env_def)
  show ?thesis
    by (simp add: download_def p f t example_build)
qed

lemma example_accessor:
  assumes "arg_root a = ''data''" and "arg_split a \<noteq> ''train''"
    and "arg_normal_classes a = [3]" and "arg_all_transform a = None"
    and "arg_img_gt_transform a = Some \<lparr>transforms = [Resize, ToTensor], call = to_tensor\<rparr>"
  shows "get_original_gtmaps_normal_class (example_loaded a) example_env =
     (Inr [[[[1]]], [[[0]]], [[[0]]]],
      (example_loaded a)\<lparr>orig_gtmaps := Some [[[[1]]], [[[0]]], [[[0]]]]\<rparr>,
      example_env\<lparr>files := (files example_env)
         (''data/mvtec/admvtec_orig_cls3.pt'' \<mapsto> example_orig_archive)\<rparr>)"
proof -
  let ?v = "example_loaded a"
  have r: "root_dir ?v = ''data''" by (simp add: example_loaded_root assms(1))
  have v: "split ?v \<noteq> ''train''" "normal_classes ?v = [3]" "all_transform ?v = None"
    "img_gt_transform ?v = Some \<lparr>transforms = [Resize, ToTensor], call = to_tensor\<rparr>"
    "orig_gtmaps ?v = None"
    using assms
    by (simp_all add: example_loaded_def enlarge10_def load_split_def init_fields_def)
  have m: "unsqueeze_div255 (test_maps example_orig_archive) = [[[[1]]], [[[0]]], [[[0]]]]"
    by (simp add: unsqueeze_div255_def example_orig_archive_def)
  show ?thesis
    by (simp add: get_original_gtmaps_normal_class_def v tensor_get_def Let_def
          example_download [OF r] example_orig_path [OF r] m)
qed

section \<open>Construction\<close>

lemma length_repeat: "length (repeat n xs) = n * length xs"
  by (induction n) (simp_all add: repeat_def)

lemma nth_repeat: "i < n * length xs \<Longrightarrow> repeat n xs ! i = xs ! (i mod length xs)"
proof (induction n arbitrary: i)
  case 0
  then show ?case by simp
next
  case (Suc n)
  show ?case
  proof (cases "i < length xs")
    case True
    then show ?thesis by (simp add: repeat_def nth_append)
  next
    case False
    then have "i - length xs < n * length xs" using Suc.prems by simp
    from Suc.IH [OF this] False show ?thesis
      by (simp add: repeat_def nth_append le_mod_geq)
  qed
qed

lemma data_file_init_fields:
  "data_file (init_fields (a\<lparr>arg_enlarge := e\<rparr>) s) = data_file (init_fields a s)"
  by (simp add: data_file_def filename_def init_fields_def)

lemma orig_data_file_init_fields:
  "orig_data_file (init_fields (a\<lparr>arg_enlarge := e\<rparr>) s) c = orig_data_file (init_fields a s) c"
  by (simp add: orig_data_file_def init_fields_def)

lemma cache_path_init_fields:
  "cache_path (init_fields (a\<lparr>arg_enlarge := e\<rparr>) s) shp cls
     = cache_path (init_fields a s) shp cls"
  unfolding cache_path_def data_file_init_fields orig_data_file_init_fields ..

lemma download_init_fields:
  "download (init_fields (a\<lparr>arg_enlarge := e\<rparr>) s) w shp cls
     = download (init_fields a s) w shp cls"
  unfolding download_def cache_path_init_fields ..

lemma shape_init_fields: "shape (init_fields a s) = arg_shape a"
  by (simp add: init_fields_def)

lemma init_load_enlarge_flag:
  assumes "init_load (a\<lparr>arg_enlarge := e\<rparr>) w = Inr (v, w')"
  shows "\<exists>s d. verify_str_arg (arg_split a)
                 [''train'', ''test'', ''test_anomaly_label_target''] = Inr s \<and>
           (if arg_download a
            then download (init_fields a s) w (Some (snd (arg_shape a))) None
            else Inr w) = Inr w' \<and>
           files w' (data_file (init_fields a s)) = Some d \<and>
           v = enlarge10 (load_split (init_fields (a\<lparr>arg_enlarge := e\<rparr>) s) d)"
  using assms
  by (auto simp: init_load_def Let_def download_init_fields data_file_init_fields
        shape_init_fields split: sum.splits option.splits if_splits)

lemma enlarge10_load_split_True:
  "enlarge10 (load_split (init_fields (a\<lparr>arg_enlarge := True\<rparr>) s) d) = v10 \<Longrightarrow>
   enlarge10 (load_split (init_fields (a\<lparr>arg_enlarge := False\<rparr>) s) d) = v1 \<Longrightarrow>
   data v10 = repeat 10 (data v1) \<and> targets v10 = repeat 10 (targets v1) \<and>
   gt v10 = map_option (repeat 10) (gt v1) \<and>
   anomaly_labels v10 = map_option (repeat 10) (anomaly_labels v1)"
  by (auto simp: enlarge10_def load_split_def init_fields_def)

lemma init_load_enlarge:
  assumes "init_load (a\<lparr>arg_enlarge := True\<rparr>) w = Inr (v10, w10)"
    and "init_load (a\<lparr>arg_enlarge := False\<rparr>) w = Inr (v1, w1)"
  shows "data v10 = repeat 10 (data v1) \<and> targets v10 = repeat 10 (targets v1) \<and>
   gt v10 = map_option (repeat 10) (gt v1) \<and>
   anomaly_labels v10 = map_option (repeat 10) (anomaly_labels v1)"
proof -
  from init_load_enlarge_flag [OF assms(1)] obtain s d where
    a: "verify_str_arg (arg_split a) [''train'', ''test'', ''test_anomaly_label_target''] = Inr s"
       "(if arg_download a
            then download (init_fields a s) w (Some (snd (arg_shape a))) None
            else Inr w) = Inr w10"
       "files w10 (data_file (init_fields a s)) = Some d"
       "v10 = enlarge10 (load_split (init_fields (a\<lparr>arg_enlarge := True\<rparr>) s) d)"
    by blast
  from init_load_enlarge_flag [OF assms(2)] obtain s' d' where
    b: "verify_str_arg (arg_split a) [''train'', ''test'', ''test_anomaly_label_target''] = Inr s'"
       "(if arg_download a
            then download (init_fields a s') w (Some (snd (arg_shape a))) None
            else Inr w) = Inr w1"
       "files w1 (data_file (init_fields a s')) = Some d'"
       "v1 = enlarge10 (load_split (init_fields (a\<lparr>arg_enlarge := False\<rparr>) s') d')"
    by blast
  from a(1) b(1) have s: "s' = s" by simp
  from a(2) b(2) [unfolded s] have w: "w1 = w10" by (metis Inr_inject)
  from a(3) b(3) [unfolded s w] have d: "d' = d" by (metis option.inject)
  from enlarge10_load_split_True [OF a(4) [symmetric] b(4) [symmetric, unfolded s d]]
  show ?thesis .
qed

lemma init_fields_of:
  "init a w = Inr (v, w') \<Longrightarrow> init_load a w = Inr (v, w')"
  by (auto simp: init_def split: sum.splits if_splits)

text \<open>
  C5. Two views built from the same arguments and the same files, one without and one
  with the tenfold flag: every sequence of the second (images, labels and, when the split
  has them, maps and defect-category ids) is ten times as long as that of the first, and
  its element at every index \<open>i\<close> is the element of the first at \<open>i\<close> modulo the
  original length.
\<close>

theorem init_enlarge_tenfold:
  assumes "init (a\<lparr>arg_enlarge := False\<rparr>) w = Inr (v1, w1)"
    and "init (a\<lparr>arg_enlarge := True\<rparr>) w = Inr (v10, w10)"
  shows "length (data v10) = 10 * length (data v1) \<and>
         length (targets v10) = 10 * length (targets v1) \<and>
         (\<forall>i < 10 * length (data v1). data v10 ! i = data v1 ! (i mod length (data v1))) \<and>
         (\<forall>i < 10 * length (targets v1).
            targets v10 ! i = targets v1 ! (i mod length (targets v1))) \<and>
         rel_option (\<lambda>g10 g1. length g10 = 10 * length g1 \<and>
                      (\<forall>i < 10 * length g1. g10 ! i = g1 ! (i mod length g1)))
           (gt v10) (gt v1) \<and>
         rel_option (\<lambda>a10 a1. length a10 = 10 * length a1 \<and>
                      (\<forall>i < 10 * length a1. a10 ! i = a1 ! (i mod length a1)))
           (anomaly_labels v10) (anomaly_labels v1)"
proof -
  from init_load_enlarge [OF init_fields_of [OF assms(2)] init_fields_of [OF assms(1)]]
  have d: "data v10 = repeat 10 (data v1)" and t: "targets v10 = repeat 10 (targets v1)"
    and g: "gt v10 = map_option (repeat 10) (gt v1)"
    and al: "anomaly_labels v10 = map_option (repeat 10) (anomaly_labels v1)"
    by simp_all
  show ?thesis
    unfolding d t g al
    by (cases "gt v1"; cases "anomaly_labels v1") (simp_all add: length_repeat nth_repeat)
qed

theorem init_enlarge_tenfold_witness:
  "init (example_args\<lparr>arg_enlarge := False\<rparr>) example_env =
     Inr (example_loaded (example_args\<lparr>arg_enlarge := False\<rparr>), example_env) \<and>
   init (example_args\<lparr>arg_enlarge := True\<rparr>) example_env =
     Inr (example_loaded (example_args\<lparr>arg_enlarge := True\<rparr>), example_env) \<and>
   length (data (example_loaded (example_args\<lparr>arg_enlarge := False\<rparr>))) = 3 \<and>
   length (data (example_loaded (example_args\<lparr>arg_enlarge := True\<rparr>))) = 30 \<and>
   data (example_loaded (example_args\<lparr>arg_enlarge := True\<rparr>)) ! 7 =
     data (example_loaded (example_args\<lparr>arg_enlarge := False\<rparr>)) ! 1"
proof -
  let ?v1 = "example_loaded (example_args\<lparr>arg_enlarge := False\<rparr>)"
  let ?v10 = "example_loaded (example_args\<lparr>arg_enlarge := True\<rparr>)"
  have i1: "init (example_args\<lparr>arg_enlarge := False\<rparr>) example_env = Inr (?v1, example_env)"
    by (rule example_init) (simp_all add: example_args_def)
  have i10: "init (example_args\<lparr>arg_enlarge := True\<rparr>) example_env = Inr (?v10, example_env)"
    by (rule example_init) (simp_all add: example_args_def)
  have n: "length (data ?v1) = 3"
    by (simp add: example_loaded_def enlarge10_def load_split_def init_fields_def
          example_args_def example_archive_def)
  from init_enlarge_tenfold [OF i1 i10] have
    len: "length (data ?v10) = 10 * length (data ?v1)" and
    el: "\<forall>i < 10 * length (data ?v1). data ?v10 ! i = data ?v1 ! (i mod length (data ?v1))"
    by blast+
  from el n have "data ?v10 ! 7 = data ?v1 ! (7 mod 3)" by simp
  with i1 i10 n len show ?thesis by simp
qed

lemma init_split: "init a w = Inr (v, w') \<Longrightarrow> split v = arg_split a"
  by (auto simp: init_def init_load_def Let_def enlarge10_def load_split_def init_fields_def
        verify_str_arg_def split: sum.splits option.splits if_splits)

text \<open>
  C9. On a view constructed with the split \<^verbatim>\<open>train\<close> the accessor of the
  original-resolution maps raises AssertionError, and the view and the files are what
  they were.
\<close>

theorem original_gtmaps_train_fails:
  assumes "init a w = Inr (v, w')" and "arg_split a = ''train''"
  shows "get_original_gtmaps_normal_class v w2 = (Inl AssertionError, v, w2)"
  using init_split [OF assms(1)] assms(2)
  by (simp add: get_original_gtmaps_normal_class_def)

theorem original_gtmaps_train_fails_witness:
  "init (example_args\<lparr>arg_split := ''train''\<rparr>) example_env =
     Inr (example_loaded (example_args\<lparr>arg_split := ''train''\<rparr>), example_env) \<and>
   arg_split (example_args\<lparr>arg_split := ''train''\<rparr>) = ''train'' \<and>
   get_original_gtmaps_normal_class
       (example_loaded (example_args\<lparr>arg_split := ''train''\<rparr>)) example_env =
     (Inl AssertionError, example_loaded (example_args\<lparr>arg_split := ''train''\<rparr>), example_env)"
proof -
  let ?a = "example_args\<lparr>arg_split := ''train''\<rparr>"
  have i: "init ?a example_env = Inr (example_loaded ?a, example_env)"
    by (rule example_init) (simp_all add: example_args_def)
  have s: "arg_split ?a = ''train''" by simp
  from original_gtmaps_train_fails [OF i s, of example_env] i s show ?thesis by simp
qed

text \<open>
  C8, as stated, fails. The assertion of line 66 stands under the test of line 64: with
  the nominal label 0 an anomalous label equal to the sentinel -3 is accepted and the
  view is constructed.
\<close>

theorem init_sentinel_label_counterexample:
  "arg_anomalous_label (example_args\<lparr>arg_anomalous_label := - 3\<rparr>) = - 3 \<and>
   init (example_args\<lparr>arg_anomalous_label := - 3\<rparr>) example_env =
     Inr (example_loaded (example_args\<lparr>arg_anomalous_label := - 3\<rparr>), example_env)"
proof -
  have "init (example_args\<lparr>arg_anomalous_label := - 3\<rparr>) example_env =
     Inr (example_loaded (example_args\<lparr>arg_anomalous_label := - 3\<rparr>), example_env)"
    by (rule example_init) (simp_all add: example_args_def)
  then show ?thesis by simp
qed

lemma init_load_labels:
  assumes "init_load a w = Inr (v, w')"
  shows "nominal_label v = arg_nominal_label a \<and> anom_label v = arg_anomalous_label a"
  using assms
  by (auto simp: init_load_def Let_def enlarge10_def load_split_def init_fields_def
        split: sum.splits option.splits if_splits)

text \<open>
  C8, amended. For every construction that gets past loading (lines 33-62): it fails
  with AssertionError exactly when the nominal label is not 0 and the nominal or the
  anomalous label equals the sentinel -3; in every other case, so whenever the nominal
  label is 0, the sentinel is not checked and the view is constructed.
\<close>

theorem init_sentinel_label_fails:
  assumes "init_load a w = Inr (v, w')"
  shows "init a w =
     (if arg_nominal_label a \<noteq> 0 \<and>
         (arg_nominal_label a = - 3 \<or> arg_anomalous_label a = - 3)
      then Inl AssertionError else Inr (v, w'))"
proof -
  from init_load_labels [OF assms] have
    n: "nominal_label v = arg_nominal_label a" and an: "anom_label v = arg_anomalous_label a"
    by simp_all
  show ?thesis
    by (auto simp: init_def assms n an)
qed

theorem init_sentinel_label_fails_witness:
  "init_load (example_args\<lparr>arg_nominal_label := 1, arg_anomalous_label := - 3\<rparr>) example_env =
     Inr (example_loaded (example_args\<lparr>arg_nominal_label := 1, arg_anomalous_label := - 3\<rparr>),
          example_env) \<and>
   init (example_args\<lparr>arg_nominal_label := 1, arg_anomalous_label := - 3\<rparr>) example_env =
     Inl AssertionError \<and>
   init_load (example_args\<lparr>arg_nominal_label := - 3\<rparr>) example_env =
     Inr (example_loaded (example_args\<lparr>arg_nominal_label := - 3\<rparr>), example_env) \<and>
   init (example_args\<lparr>arg_nominal_label := - 3\<rparr>) example_env = Inl AssertionError \<and>
   init_load (example_args\<lparr>arg_nominal_label := 0, arg_anomalous_label := - 3\<rparr>) example_env =
     Inr (example_loaded (example_args\<lparr>arg_nominal_label := 0, arg_anomalous_label := - 3\<rparr>),
          example_env) \<and>
   init (example_args\<lparr>arg_nominal_label := 0, arg_anomalous_label := - 3\<rparr>) example_env =
     Inr (example_loaded (example_args\<lparr>arg_nominal_label := 0, arg_anomalous_label := - 3\<rparr>),
          example_env)"
proof -
  let ?a = "example_args\<lparr>arg_nominal_label := 1, arg_anomalous_label := - 3\<rparr>"
  let ?b = "example_args\<lparr>arg_nominal_label := - 3\<rparr>"
  let ?c = "example_args\<lparr>arg_nominal_label := 0, arg_anomalous_label := - 3\<rparr>"
  have la: "init_load ?a example_env = Inr (example_loaded ?a, example_env)"
    by (rule example_init_load) (simp_all add: example_args_def)
  have lb: "init_load ?b example_env = Inr (example_loaded ?b, example_env)"
    by (rule example_init_load) (simp_all add: example_args_def)
  have lc: "init_load ?c example_env = Inr (example_loaded ?c, example_env)"
    by (rule example_init_load) (simp_all add: example_args_def)
  from init_sentinel_label_fails [OF la] have ia: "init ?a example_env = Inl AssertionError"
    by simp
  from init_sentinel_label_fails [OF lb] have ib: "init ?b example_env = Inl AssertionError"
    by simp
  from init_sentinel_label_fails [OF lc] have
    ic: "init ?c example_env = Inr (example_loaded ?c, example_env)"
    by simp
  from la ia lb ib lc ic show ?thesis by (intro conjI)
qed

section \<open>The dataset builder and the original-resolution maps\<close>

lemma for_each_inv:
  assumes "for_each xs body s = Inr s'" and "I s acc"
    and "\<And>x s s' acc. x \<in> set xs \<Longrightarrow> body x s = Inr s' \<Longrightarrow> I s acc \<Longrightarrow> I s' (acc @ g x)"
  shows "I s' (acc @ concat (map g xs))"
  using assms
proof (induction xs arbitrary: s acc)
  case Nil
  then show ?case by simp
next
  case (Cons x xs)
  from Cons.prems(1) obtain s1 where
    s1: "body x s = Inr s1" and rest: "for_each xs body s1 = Inr s'"
    by (auto split: sum.splits)
  have "I s1 (acc @ g x)"
    using Cons.prems(3) [OF _ s1 Cons.prems(2)] by simp
  from Cons.IH [OF rest this] Cons.prems(3) show ?case by simp
qed

lemma idmap_lookup:
  assumes "map snd m = map int [0..<length m]" and "map_of m k = Some i"
  shows "0 \<le> i \<and> i < int (length m) \<and> map fst m ! nat i = k"
proof -
  from assms(2) have "(k, i) \<in> set m" by (rule map_of_SomeD)
  then obtain j where j: "j < length m" and mj: "m ! j = (k, i)"
    by (auto simp: in_set_conv_nth)
  have "snd (m ! j) = map snd m ! j" using j by simp
  also have "\<dots> = int j" using j by (simp add: assms(1))
  finally have "i = int j" using mj by simp
  moreover have "map fst m ! j = k" using j mj by simp
  ultimately show ?thesis using j by simp
qed

lemma first_seen_snoc:
  "rev (remdups (rev (xs @ [x]))) =
     (if x \<in> set xs then rev (remdups (rev xs)) else rev (remdups (rev xs)) @ [x])"
  by simp

lemma test_sample_step:
  assumes "test_sample w tmp_dir shp cls lbl_idx lbl al f b = Inr b'"
  shows "\<exists>i. length (test_data_list b') = Suc (length (test_data_list b)) \<and>
           length (test_labels_list b') = Suc (length (test_labels_list b)) \<and>
           length (test_maps_list b') = Suc (length (test_maps_list b)) \<and>
           test_anomaly_labels_list b' = test_anomaly_labels_list b @ [i] \<and>
           train_data_list b' = train_data_list b \<and>
           train_labels_list b' = train_labels_list b \<and>
           albl_idmap b' =
             (if map_of (albl_idmap b) al = None
              then albl_idmap b @ [(al, int (length (albl_idmap b)))]
              else albl_idmap b) \<and>
           map_of (albl_idmap b') al = Some i"
  using assms
  by (auto simp: test_sample_def Let_def map_add_def
        split: sum.splits option.splits if_splits)

lemma test_sample_inv:
  assumes run: "test_sample w tmp_dir shp cls lbl_idx lbl al f b = Inr b'"
    and inv: "build_inv b seen"
  shows "build_inv b' (seen @ [al])"
proof -
  let ?m = "albl_idmap b" and ?F = "filter (\<lambda>l. l \<noteq> normal_anomaly_label) seen"
  from test_sample_step [OF run] obtain i where
    len: "length (test_data_list b') = Suc (length (test_data_list b))"
         "length (test_labels_list b') = Suc (length (test_labels_list b))"
         "length (test_maps_list b') = Suc (length (test_maps_list b))"
    and ids: "test_anomaly_labels_list b' = test_anomaly_labels_list b @ [i]"
    and tr: "train_data_list b' = train_data_list b" "train_labels_list b' = train_labels_list b"
    and m': "albl_idmap b' =
             (if map_of ?m al = None then ?m @ [(al, int (length ?m))] else ?m)"
    and look: "map_of (albl_idmap b') al = Some i"
    by blast
  from inv have snd: "map snd ?m = map int [0..<length ?m]"
    and fst: "map fst ?m = normal_anomaly_label # rev (remdups (rev ?F))"
    and old: "map (\<lambda>i. map fst ?m ! nat i) (test_anomaly_labels_list b) = seen"
    and rng: "list_all (\<lambda>i. 0 \<le> i \<and> i < int (length ?m)) (test_anomaly_labels_list b)"
    unfolding build_inv_def by blast+
  have keys: "set (map fst ?m) = insert normal_anomaly_label (set ?F)"
    unfolding fst by simp
  have known: "map_of ?m al = None \<longleftrightarrow> al \<notin> set (map fst ?m)"
    by (simp add: map_of_eq_None_iff)
  have snd': "map snd (albl_idmap b') = map int [0..<length (albl_idmap b')]"
    unfolding m' using snd by simp
  have fst': "map fst (albl_idmap b') =
      normal_anomaly_label #
        rev (remdups (rev (filter (\<lambda>l. l \<noteq> normal_anomaly_label) (seen @ [al]))))"
  proof (cases "map_of ?m al = None")
    case True
    with known keys have "al \<noteq> normal_anomaly_label" "al \<notin> set ?F" by auto
    with True show ?thesis unfolding m' by (simp add: fst)
  next
    case False
    with known keys have "al = normal_anomaly_label \<or> al \<in> set ?F" by auto
    with False show ?thesis unfolding m' by (auto simp: fst)
  qed
  from idmap_lookup [OF snd' look] have
    i: "0 \<le> i" "i < int (length (albl_idmap b'))" "map fst (albl_idmap b') ! nat i = al"
    by simp_all
  have grow: "length ?m \<le> length (albl_idmap b')" unfolding m' by simp
  have same: "map fst (albl_idmap b') ! nat j = map fst ?m ! nat j"
    if "0 \<le> j \<and> j < int (length ?m)" for j
    using that unfolding m' by (auto simp: nth_append)
  have "map (\<lambda>i. map fst (albl_idmap b') ! nat i) (test_anomaly_labels_list b)
          = map (\<lambda>i. map fst ?m ! nat i) (test_anomaly_labels_list b)"
    using rng same by (auto simp: list_all_iff)
  with old i(3) have ids': "map (\<lambda>i. map fst (albl_idmap b') ! nat i)
      (test_anomaly_labels_list b') = seen @ [al]"
    unfolding ids by simp
  have rng': "list_all (\<lambda>i. 0 \<le> i \<and> i < int (length (albl_idmap b')))
      (test_anomaly_labels_list b')"
    unfolding ids using rng grow i(1,2) by (auto simp: list_all_iff)
  from inv len ids tr snd' fst' ids' rng' show ?thesis
    by (simp add: build_inv_def)
qed

lemma train_sample_inv:
  assumes "train_sample w tmp_dir shp lbl_idx lbl al f b = Inr b'" and "build_inv b seen"
  shows "build_inv b' seen"
  using assms
  by (auto simp: train_sample_def build_inv_def split: sum.splits)

lemma concat_map_single: "concat (map (\<lambda>x. [c]) xs) = map (\<lambda>x. c) xs"
  by (induction xs) simp_all

lemma concat_map_nil: "concat (map (\<lambda>x. []) xs) = []"
  by (induction xs) simp_all

lemma for_each_file_test_inv:
  assumes run: "for_each_file tmp_dir lbl ''test''
                  (test_sample w tmp_dir shp cls lbl_idx lbl) b = Inr b'"
    and inv: "build_inv b seen"
  shows "build_inv b' (seen @ test_categories tmp_dir lbl)"
proof -
  from run obtain dirs where
    dirs: "listdir tmp_dir [lbl, ''test''] = Inr dirs" and
    loop: "for_each (sort dirs)
             (\<lambda>anomaly_label b1.
                case listdir tmp_dir [lbl, ''test'', anomaly_label] of
                  Inl e \<Rightarrow> Inl e
                | Inr names \<Rightarrow>
                    for_each (sort names)
                      (test_sample w tmp_dir shp cls lbl_idx lbl anomaly_label) b1)
             b = Inr b'"
    by (auto simp: for_each_file_def split: sum.splits)
  have step: "build_inv s'
                (acc @ map (\<lambda>img_name. al) (sorted_entries tmp_dir [lbl, ''test'', al]))"
    if body: "(case listdir tmp_dir [lbl, ''test'', al] of
                 Inl e \<Rightarrow> Inl e
               | Inr names \<Rightarrow>
                   for_each (sort names) (test_sample w tmp_dir shp cls lbl_idx lbl al) s)
              = Inr s'"
      and acc: "build_inv s acc" for al s s' acc
  proof -
    from body obtain names where
      names: "listdir tmp_dir [lbl, ''test'', al] = Inr names" and
      inner: "for_each (sort names) (test_sample w tmp_dir shp cls lbl_idx lbl al) s = Inr s'"
      by (auto split: sum.splits)
    have "build_inv s' (acc @ concat (map (\<lambda>img_name. [al]) (sort names)))"
      by (rule for_each_inv [where I = build_inv and g = "\<lambda>img_name. [al]", OF inner acc])
        (rule test_sample_inv)
    then show ?thesis
      by (simp add: concat_map_single sorted_entries_def names)
  qed
  have "build_inv b'
          (seen @ concat (map (\<lambda>al. map (\<lambda>img_name. al)
                                  (sorted_entries tmp_dir [lbl, ''test'', al])) (sort dirs)))"
    by (rule for_each_inv [where I = build_inv and
          g = "\<lambda>al. map (\<lambda>img_name. al) (sorted_entries tmp_dir [lbl, ''test'', al])",
          OF loop inv]) (rule step)
  then show ?thesis
    by (simp add: test_categories_def sorted_entries_def dirs)
qed

lemma for_each_file_train_inv:
  assumes run: "for_each_file tmp_dir lbl ''train''
                  (train_sample w tmp_dir shp lbl_idx lbl) b = Inr b'"
    and inv: "build_inv b seen"
  shows "build_inv b' seen"
proof -
  from run obtain dirs where
    loop: "for_each (sort dirs)
             (\<lambda>anomaly_label b1.
                case listdir tmp_dir [lbl, ''train'', anomaly_label] of
                  Inl e \<Rightarrow> Inl e
                | Inr names \<Rightarrow>
                    for_each (sort names)
                      (train_sample w tmp_dir shp lbl_idx lbl anomaly_label) b1)
             b = Inr b'"
    by (auto simp: for_each_file_def split: sum.splits)
  have step: "build_inv s' (acc @ [])"
    if body: "(case listdir tmp_dir [lbl, ''train'', al] of
                 Inl e \<Rightarrow> Inl e
               | Inr names \<Rightarrow>
                   for_each (sort names) (train_sample w tmp_dir shp lbl_idx lbl al) s)
              = Inr s'"
      and acc: "build_inv s acc" for al s s' acc
  proof -
    from body obtain names where
      inner: "for_each (sort names) (train_sample w tmp_dir shp lbl_idx lbl al) s = Inr s'"
      by (auto split: sum.splits)
    have "build_inv s' (acc @ concat (map (\<lambda>img_name. []) (sort names)))"
      by (rule for_each_inv [where I = build_inv and g = "\<lambda>img_name. []", OF inner acc])
        (simp add: train_sample_inv)
    then show ?thesis by (simp add: concat_map_nil)
  qed
  have "build_inv b' (seen @ concat (map (\<lambda>al. []) (sort dirs)))"
    by (rule for_each_inv [where I = build_inv and g = "\<lambda>al. []", OF loop inv]) (rule step)
  then show ?thesis by (simp add: concat_map_nil)
qed

lemma process_label_inv:
  assumes "process_label w tmp_dir shp cls il b = Inr b'" and "build_inv b seen"
  shows "build_inv b' (seen @ test_categories tmp_dir (snd il))"
  using assms
  by (auto simp: process_label_def split: prod.splits sum.splits
        dest!: for_each_file_test_inv for_each_file_train_inv)

lemma build_inv_init: "build_inv build_init []"
  by (simp add: build_inv_def build_init_def normal_anomaly_label_idx_def)

lemma map_snd_enumerate: "map snd (enumerate_from0 xs) = xs"
  by (simp add: enumerate_from0_def)

lemma loop_inv:
  assumes "for_each (enumerate_from0 ls) (process_label w tmp_dir shp cls) build_init = Inr b"
  shows "build_inv b (concat (map (test_categories tmp_dir) ls))"
proof -
  have "build_inv b ([] @ concat (map (\<lambda>il. test_categories tmp_dir (snd il))
                                   (enumerate_from0 ls)))"
    by (rule for_each_inv [where I = build_inv and
          g = "\<lambda>il. test_categories tmp_dir (snd il)", OF assms build_inv_init])
      (rule process_label_inv)
  moreover have "map (\<lambda>il. test_categories tmp_dir (snd il)) (enumerate_from0 ls)
      = map (test_categories tmp_dir) (map snd (enumerate_from0 ls))"
    by simp
  ultimately show ?thesis by (simp only: map_snd_enumerate append_Nil)
qed


lemma stack_ok: "stack ts = Inr ts' \<Longrightarrow> ts' = ts \<and> ts \<noteq> []"
  by (auto simp: stack_def split: list.splits if_splits)

lemma sorted_ids: "sorted (map int [0..<n])"
  by (induction n) (auto simp: sorted_append)

lemma assemble_ok:
  assumes "assemble b = Inr a"
  shows "train_data a = train_data_list b \<and> train_labels a = train_labels_list b \<and>
         test_data a = test_data_list b \<and> test_labels a = test_labels_list b \<and>
         length (test_maps a) = length (test_maps_list b) \<and>
         test_anomaly_labels a = test_anomaly_labels_list b \<and>
         anomaly_label_strings a = map fst (sort_key snd (albl_idmap b)) \<and>
         test_data_list b \<noteq> []"
  using assms
  by (auto simp: assemble_def Let_def split: sum.splits if_splits dest!: stack_ok)

lemma build_archive_inv:
  assumes "build_archive w tmp_dir shp cls = Inr a"
  shows "\<exists>b. build_inv b (concat (map (test_categories tmp_dir) (classes_of cls))) \<and>
           assemble b = Inr a"
proof -
  from assms obtain ls b where
    ls: "(case cls of
            None \<Rightarrow> Inr labels
          | Some c \<Rightarrow> (case tensor_get labels c of Inl e \<Rightarrow> Inl e | Inr l \<Rightarrow> Inr [l]))
         = Inr ls"
    and loop: "for_each (enumerate_from0 ls) (process_label w tmp_dir shp cls) build_init = Inr b"
    and a: "assemble b = Inr a"
    by (auto simp: build_archive_def split: sum.splits)
  from ls have "classes_of cls = ls"
    by (auto simp: classes_of_def split: option.splits sum.splits)
  with loop_inv [OF loop] a show ?thesis by blast
qed

lemma archive_facts:
  assumes "build_archive w tmp_dir shp cls = Inr a"
  defines "seen \<equiv> concat (map (test_categories tmp_dir) (classes_of cls))"
  shows "length (train_data a) = length (train_labels a)"
    and "length (test_data a) = length seen"
    and "length (test_labels a) = length seen"
    and "length (test_maps a) = length seen"
    and "length (test_anomaly_labels a) = length seen"
    and "anomaly_label_strings a =
           normal_anomaly_label #
             rev (remdups (rev (filter (\<lambda>l. l \<noteq> normal_anomaly_label) seen)))"
    and "map (\<lambda>i. anomaly_label_strings a ! nat i) (test_anomaly_labels a) = seen"
    and "list_all (\<lambda>i. 0 \<le> i \<and> i < int (length (anomaly_label_strings a)))
           (test_anomaly_labels a)"
    and "seen \<noteq> []"
proof -
  from build_archive_inv [OF assms(1)] obtain b where
    inv: "build_inv b seen" and a: "assemble b = Inr a"
    unfolding seen_def by blast
  from assemble_ok [OF a] have
    ok1: "train_data a = train_data_list b" and ok2: "train_labels a = train_labels_list b" and
    ok3: "test_data a = test_data_list b" and ok4: "test_labels a = test_labels_list b" and
    ok5: "length (test_maps a) = length (test_maps_list b)" and
    ok6: "test_anomaly_labels a = test_anomaly_labels_list b" and
    ok7: "anomaly_label_strings a = map fst (sort_key snd (albl_idmap b))" and
    ok8: "test_data_list b \<noteq> []"
    by blast+
  from inv have
    i1: "length (test_data_list b) = length seen" and
    i2: "length (test_labels_list b) = length seen" and
    i3: "length (test_maps_list b) = length seen" and
    i4: "length (test_anomaly_labels_list b) = length seen" and
    i5: "length (train_data_list b) = length (train_labels_list b)" and
    i6: "map snd (albl_idmap b) = map int [0..<length (albl_idmap b)]" and
    i7: "map fst (albl_idmap b) =
           normal_anomaly_label #
             rev (remdups (rev (filter (\<lambda>l. l \<noteq> normal_anomaly_label) seen)))" and
    i8: "map (\<lambda>i. map fst (albl_idmap b) ! nat i) (test_anomaly_labels_list b) = seen" and
    i9: "list_all (\<lambda>i. 0 \<le> i \<and> i < int (length (albl_idmap b)))
           (test_anomaly_labels_list b)"
    unfolding build_inv_def by blast+
  have "sort_key snd (albl_idmap b) = albl_idmap b"
    by (rule sort_key_id_if_sorted) (simp only: i6 sorted_ids)
  with ok7 have strs: "anomaly_label_strings a = map fst (albl_idmap b)" by simp
  show "length (train_data a) = length (train_labels a)" by (simp only: ok1 ok2 i5)
  show "length (test_data a) = length seen" by (simp only: ok3 i1)
  show "length (test_labels a) = length seen" by (simp only: ok4 i2)
  show "length (test_maps a) = length seen" by (simp only: ok5 i3)
  show "length (test_anomaly_labels a) = length seen" by (simp only: ok6 i4)
  show "anomaly_label_strings a =
           normal_anomaly_label #
             rev (remdups (rev (filter (\<lambda>l. l \<noteq> normal_anomaly_label) seen)))"
    by (simp only: strs i7)
  show "map (\<lambda>i. anomaly_label_strings a ! nat i) (test_anomaly_labels a) = seen"
    by (simp only: strs ok6 i8)
  have "length (anomaly_label_strings a) = length (albl_idmap b)"
    by (simp only: strs length_map)
  with i9 show "list_all (\<lambda>i. 0 \<le> i \<and> i < int (length (anomaly_label_strings a)))
           (test_anomaly_labels a)"
    by (simp only: ok6)
  from ok8 i1 show "seen \<noteq> []" by auto
qed

lemma download_builds:
  assumes "download self w shp cls = Inr w'" and "files w (cache_path self shp cls) = None"
  shows "\<exists>tmp_dir a. fetched w = Inr tmp_dir \<and> build_archive w tmp_dir shp cls = Inr a \<and>
           files w' (cache_path self shp cls) = Some a"
  using assms
  by (auto simp: download_def split: if_splits sum.splits)

text \<open>
  C6. When \<^verbatim>\<open>download\<close> returns and the archive was not there before, the archive
  it has saved has as many train labels as train images, equally many test images, test
  labels, test maps and defect-category ids, and every defect-category id is a valid
  index into the saved sequence of defect-category names.
\<close>

theorem download_archive_lengths:
  assumes "download self w shp cls = Inr w'" and "files w (cache_path self shp cls) = None"
  shows "\<exists>a. files w' (cache_path self shp cls) = Some a \<and>
           length (train_data a) = length (train_labels a) \<and>
           length (test_data a) = length (test_labels a) \<and>
           length (test_labels a) = length (test_maps a) \<and>
           length (test_maps a) = length (test_anomaly_labels a) \<and>
           (\<forall>i \<in> set (test_anomaly_labels a).
              0 \<le> i \<and> nat i < length (anomaly_label_strings a))"
proof -
  from download_builds [OF assms] obtain tmp_dir a where
    b: "build_archive w tmp_dir shp cls = Inr a" and
    f: "files w' (cache_path self shp cls) = Some a"
    by blast
  from archive_facts(8) [OF b]
  have "\<forall>i \<in> set (test_anomaly_labels a). 0 \<le> i \<and> nat i < length (anomaly_label_strings a)"
    by (auto simp: list_all_iff)
  with f archive_facts(1-5) [OF b] show ?thesis by simp
qed

theorem download_archive_lengths_witness:
  "download (example_loaded example_args) example_env None (Some 3) =
     Inr (example_env\<lparr>files := (files example_env)
            (''data/mvtec/admvtec_orig_cls3.pt'' \<mapsto> example_orig_archive)\<rparr>) \<and>
   files example_env (cache_path (example_loaded example_args) None (Some 3)) = None \<and>
   cache_path (example_loaded example_args) None (Some 3) = ''data/mvtec/admvtec_orig_cls3.pt'' \<and>
   length (train_data example_orig_archive) = length (train_labels example_orig_archive) \<and>
   length (test_data example_orig_archive) = length (test_labels example_orig_archive) \<and>
   length (test_labels example_orig_archive) = length (test_maps example_orig_archive) \<and>
   length (test_maps example_orig_archive) = length (test_anomaly_labels example_orig_archive) \<and>
   list_all (\<lambda>i. 0 \<le> i \<and> nat i < length (anomaly_label_strings example_orig_archive))
     (test_anomaly_labels example_orig_archive)"
proof -
  let ?v = "example_loaded example_args"
  let ?w = "example_env\<lparr>files := (files example_env)
            (''data/mvtec/admvtec_orig_cls3.pt'' \<mapsto> example_orig_archive)\<rparr>"
  have r: "root_dir ?v = ''data''" by (simp add: example_loaded_root example_args_def)
  have d: "download ?v example_env None (Some 3) = Inr ?w" by (rule example_download [OF r])
  have p: "cache_path ?v None (Some 3) = ''data/mvtec/admvtec_orig_cls3.pt''"
    by (simp add: cache_path_def example_orig_path [OF r])
  have f: "files example_env (cache_path ?v None (Some 3)) = None"
    by (simp add: p example_env_def)
  from download_archive_lengths [OF d f] have
    "length (train_data example_orig_archive) = length (train_labels example_orig_archive) \<and>
     length (test_data example_orig_archive) = length (test_labels example_orig_archive) \<and>
     length (test_labels example_orig_archive) = length (test_maps example_orig_archive) \<and>
     length (test_maps example_orig_archive) = length (test_anomaly_labels example_orig_archive) \<and>
     (\<forall>i \<in> set (test_anomaly_labels example_orig_archive).
        0 \<le> i \<and> nat i < length (anomaly_label_strings example_orig_archive))"
    by (simp add: p)
  with d f p show ?thesis by (simp add: list_all_iff)
qed

text \<open>
  C7. In the archive that \<^verbatim>\<open>download\<close> saves, the name at id 0 is the normal
  category; the names after it are the other defect categories, each once, in the order
  in which the traversal (the classes in their order, the test directories of each in
  lexicographic order, the files of each in lexicographic order) first meets them, so
  that they get the ids 1, 2, ... in that order; and the id recorded for every test sample
  is the position of its category in the names.
\<close>

theorem download_defect_category_ids:
  assumes "download self w shp cls = Inr w'" and "files w (cache_path self shp cls) = None"
  shows "\<exists>tmp_dir a. fetched w = Inr tmp_dir \<and>
           files w' (cache_path self shp cls) = Some a \<and>
           anomaly_label_strings a ! 0 = normal_anomaly_label \<and>
           anomaly_label_strings a =
             normal_anomaly_label #
               rev (remdups (rev (filter (\<lambda>l. l \<noteq> normal_anomaly_label)
                     (concat (map (test_categories tmp_dir) (classes_of cls)))))) \<and>
           map (\<lambda>i. anomaly_label_strings a ! nat i) (test_anomaly_labels a) =
             concat (map (test_categories tmp_dir) (classes_of cls)) \<and>
           distinct (anomaly_label_strings a)"
proof -
  from download_builds [OF assms] obtain tmp_dir a where
    t: "fetched w = Inr tmp_dir" and
    b: "build_archive w tmp_dir shp cls = Inr a" and
    f: "files w' (cache_path self shp cls) = Some a"
    by blast
  note s = archive_facts(6) [OF b]
  have "distinct (anomaly_label_strings a)" unfolding s by simp
  moreover have "anomaly_label_strings a ! 0 = normal_anomaly_label" unfolding s by simp
  ultimately show ?thesis using t f s archive_facts(7) [OF b] by blast
qed


theorem download_defect_category_ids_witness:
  "download (example_loaded example_args) example_env None (Some 3) =
     Inr (example_env\<lparr>files := (files example_env)
            (''data/mvtec/admvtec_orig_cls3.pt'' \<mapsto> example_orig_archive)\<rparr>) \<and>
   files example_env (cache_path (example_loaded example_args) None (Some 3)) = None \<and>
   concat (map (test_categories example_tree) (classes_of (Some 3))) =
     [''crack'', ''crack'', ''good''] \<and>
   anomaly_label_strings example_orig_archive = [''good'', ''crack''] \<and>
   test_anomaly_labels example_orig_archive = [1, 1, 0] \<and>
   anomaly_label_strings example_orig_archive =
     normal_anomaly_label #
       rev (remdups (rev (filter (\<lambda>l. l \<noteq> normal_anomaly_label)
             (concat (map (test_categories example_tree) (classes_of (Some 3))))))) \<and>
   map (\<lambda>i. anomaly_label_strings example_orig_archive ! nat i)
       (test_anomaly_labels example_orig_archive) =
     concat (map (test_categories example_tree) (classes_of (Some 3)))"
proof -
  let ?v = "example_loaded example_args"
  let ?w = "example_env\<lparr>files := (files example_env)
            (''data/mvtec/admvtec_orig_cls3.pt'' \<mapsto> example_orig_archive)\<rparr>"
  have r: "root_dir ?v = ''data''" by (simp add: example_loaded_root example_args_def)
  have d: "download ?v example_env None (Some 3) = Inr ?w" by (rule example_download [OF r])
  have p: "cache_path ?v None (Some 3) = ''data/mvtec/admvtec_orig_cls3.pt''"
    by (simp add: cache_path_def example_orig_path [OF r])
  have f: "files example_env (cache_path ?v None (Some 3)) = None"
    by (simp add: p example_env_def)
  have t: "fetched example_env = Inr example_tree" by (simp add: example_env_def)
  have c: "concat (map (test_categories example_tree) (classes_of (Some 3))) =
     [''crack'', ''crack'', ''good'']"
    by (simp add: classes_of_def example_class example_categories)
  have s: "anomaly_label_strings example_orig_archive = [''good'', ''crack'']"
       "test_anomaly_labels example_orig_archive = [1, 1, 0]"
    by (simp_all add: example_orig_archive_def)
  from download_defect_category_ids [OF d f] obtain tmp_dir a where
    t': "fetched example_env = Inr tmp_dir" and
    a: "files ?w (cache_path ?v None (Some 3)) = Some a" and
    names: "anomaly_label_strings a =
      normal_anomaly_label #
        rev (remdups (rev (filter (\<lambda>l. l \<noteq> normal_anomaly_label)
              (concat (map (test_categories tmp_dir) (classes_of (Some 3)))))))" and
    ids: "map (\<lambda>i. anomaly_label_strings a ! nat i) (test_anomaly_labels a) =
      concat (map (test_categories tmp_dir) (classes_of (Some 3)))"
    by blast
  from t t' have tmp: "tmp_dir = example_tree" by simp
  from a have arch: "a = example_orig_archive" by (simp add: p)
  from d f c s names [unfolded tmp arch] ids [unfolded tmp arch] show ?thesis
    by (intro conjI)
qed

lemma init_loaded:
  assumes "init a w = Inr (v, w')"
  shows "\<exists>s d. v = enlarge10 (load_split (init_fields a s) d) \<and>
           files w' (data_file (init_fields a s)) = Some d \<and> s = arg_split a"
  using assms
  by (auto simp: init_def init_load_def Let_def verify_str_arg_def
        split: sum.splits option.splits if_splits)

lemma data_file_loaded:
  "data_file (enlarge10 (load_split (init_fields a s) d)) = data_file (init_fields a s)"
  by (simp add: data_file_def filename_def enlarge10_def load_split_def)

lemma init_orig_gtmaps:
  assumes "init a w = Inr (v, w')"
  shows "orig_gtmaps v = None"
proof -
  from init_loaded [OF assms] obtain s d where
    "v = enlarge10 (load_split (init_fields a s) d)" by blast
  then show ?thesis
    by (simp add: enlarge10_def load_split_def init_fields_def)
qed

lemma init_enlarged_len:
  assumes "init a w = Inr (v, w')" and "arg_enlarge a" and "arg_split a \<noteq> ''train''"
  shows "\<exists>d. files w' (data_file v) = Some d \<and> length (data v) = 10 * length (test_data d)"
proof -
  from init_loaded [OF assms(1)] obtain s d where
    v: "v = enlarge10 (load_split (init_fields a s) d)" and
    d: "files w' (data_file (init_fields a s)) = Some d" and s: "s = arg_split a"
    by blast
  have "length (data v) = 10 * length (test_data d)"
    using assms(2,3) s unfolding v
    by (simp add: enlarge10_def load_split_def init_fields_def length_repeat)
  with d show ?thesis unfolding v data_file_loaded by blast
qed

lemma accessor_result:
  assumes "get_original_gtmaps_normal_class v w2 = (Inr m, v', w3)"
    and "orig_gtmaps v = None"
  shows "\<exists>cls ds. normal_classes v = [cls] \<and> download v w2 None (Some cls) = Inr w3 \<and>
           files w3 (orig_data_file v cls) = Some ds \<and> m = unsqueeze_div255 (test_maps ds)"
proof -
  from assms have one: "length (normal_classes v) = 1"
    by (auto simp: get_original_gtmaps_normal_class_def split: if_splits option.splits)
  then obtain cls where nc: "normal_classes v = [cls]"
    by (cases "normal_classes v") auto
  then have g: "tensor_get (normal_classes v) 0 = Inr cls"
    by (simp add: tensor_get_def)
  from assms show ?thesis
    unfolding get_original_gtmaps_normal_class_def nc
    by (auto simp: tensor_get_def Let_def split: if_splits option.splits sum.splits)
qed

lemma accessor_memo:
  assumes "get_original_gtmaps_normal_class v w2 = (Inr m, v', w3)"
  shows "get_original_gtmaps_normal_class v' w4 = (Inr m, v', w4)"
proof (cases "orig_gtmaps v")
  case (Some m0)
  with assms have "m = m0 \<and> v' = v"
    by (auto simp: get_original_gtmaps_normal_class_def split: if_splits option.splits)
  with assms Some show ?thesis
    by (auto simp: get_original_gtmaps_normal_class_def split: if_splits option.splits)
next
  case None
  with assms have v': "v' = v\<lparr>orig_gtmaps := Some m\<rparr>"
    by (auto simp: get_original_gtmaps_normal_class_def Let_def
          split: if_splits option.splits sum.splits)
  from assms show ?thesis
    unfolding v'
    by (auto simp: get_original_gtmaps_normal_class_def split: if_splits option.splits)
qed

text \<open>
  C10. For a view of a test split (either of the two) constructed with the tenfold flag,
  the lazily computed maps are not set by the construction (the view itself has ten times
  the test samples of its archive); when the accessor returns, its result has as many
  maps as the archive of the original resolution of the one normal class holds, and when
  that archive was built by this call, as many as the class has test samples in the tree,
  which is not ten times that number; and every later call on the view gives the same
  maps back and leaves the view and the files as they are.
\<close>

theorem original_gtmaps_not_enlarged:
  assumes "init a w = Inr (v, w1)" and "arg_enlarge a" and "arg_split a \<noteq> ''train''"
    and "get_original_gtmaps_normal_class v w2 = (Inr m, v', w3)"
  shows "orig_gtmaps v = None \<and>
         (\<exists>d. files w1 (data_file v) = Some d \<and> length (data v) = 10 * length (test_data d)) \<and>
         (\<exists>cls ds. normal_classes v = [cls] \<and>
            files w3 (orig_data_file v cls) = Some ds \<and>
            length m = length (test_maps ds) \<and>
            (files w2 (orig_data_file v cls) = None \<longrightarrow>
               (\<exists>tmp_dir lbl. fetched w2 = Inr tmp_dir \<and> tensor_get labels cls = Inr lbl \<and>
                  length m = length (test_categories tmp_dir lbl) \<and>
                  length m \<noteq> 10 * length (test_categories tmp_dir lbl)))) \<and>
         (\<forall>w4. get_original_gtmaps_normal_class v' w4 = (Inr m, v', w4))"
proof -
  have none: "orig_gtmaps v = None" by (rule init_orig_gtmaps [OF assms(1)])
  from accessor_result [OF assms(4) none] obtain cls ds where
    nc: "normal_classes v = [cls]" and dl: "download v w2 None (Some cls) = Inr w3" and
    ds: "files w3 (orig_data_file v cls) = Some ds" and m: "m = unsqueeze_div255 (test_maps ds)"
    by blast
  have len: "length m = length (test_maps ds)" unfolding m by (simp add: unsqueeze_div255_def)
  have built: "\<exists>tmp_dir lbl. fetched w2 = Inr tmp_dir \<and> tensor_get labels cls = Inr lbl \<and>
                  length m = length (test_categories tmp_dir lbl) \<and>
                  length m \<noteq> 10 * length (test_categories tmp_dir lbl)"
    if absent: "files w2 (orig_data_file v cls) = None"
  proof -
    have p: "cache_path v None (Some cls) = orig_data_file v cls"
      by (simp add: cache_path_def)
    from download_builds [OF dl] absent p obtain tmp_dir a' where
      t: "fetched w2 = Inr tmp_dir" and b: "build_archive w2 tmp_dir None (Some cls) = Inr a'" and
      f: "files w3 (orig_data_file v cls) = Some a'"
      by auto
    from f ds have a': "a' = ds" by simp
    from archive_facts(9) [OF b] have "\<exists>lbl. tensor_get labels cls = Inr lbl"
      by (cases "tensor_get labels cls") (simp_all add: classes_of_def)
    then obtain lbl where l: "tensor_get labels cls = Inr lbl" by blast
    then have c: "classes_of (Some cls) = [lbl]" by (simp add: classes_of_def)
    from archive_facts(4) [OF b] have
      n: "length (test_maps ds) = length (test_categories tmp_dir lbl)"
      unfolding a' c by simp
    from archive_facts(9) [OF b] have "test_categories tmp_dir lbl \<noteq> []"
      unfolding c by simp
    with t l n len show ?thesis by auto
  qed
  from init_enlarged_len [OF assms(1,2,3)] have second:
    "\<exists>d. files w1 (data_file v) = Some d \<and> length (data v) = 10 * length (test_data d)" .
  have "normal_classes v = [cls] \<and>
        files w3 (orig_data_file v cls) = Some ds \<and>
        length m = length (test_maps ds) \<and>
        (files w2 (orig_data_file v cls) = None \<longrightarrow>
           (\<exists>tmp_dir lbl. fetched w2 = Inr tmp_dir \<and> tensor_get labels cls = Inr lbl \<and>
              length m = length (test_categories tmp_dir lbl) \<and>
              length m \<noteq> 10 * length (test_categories tmp_dir lbl)))"
    using nc ds len built by (intro conjI impI)
  then have third: "\<exists>cls ds. normal_classes v = [cls] \<and>
        files w3 (orig_data_file v cls) = Some ds \<and>
        length m = length (test_maps ds) \<and>
        (files w2 (orig_data_file v cls) = None \<longrightarrow>
           (\<exists>tmp_dir lbl. fetched w2 = Inr tmp_dir \<and> tensor_get labels cls = Inr lbl \<and>
              length m = length (test_categories tmp_dir lbl) \<and>
              length m \<noteq> 10 * length (test_categories tmp_dir lbl)))"
    by (intro exI)
  have fourth: "\<forall>w4. get_original_gtmaps_normal_class v' w4 = (Inr m, v', w4)"
    using accessor_memo [OF assms(4)] by blast
  from none second third fourth show ?thesis by (intro conjI)
qed

theorem original_gtmaps_not_enlarged_witness:
  "init (example_args\<lparr>arg_split := ''test_anomaly_label_target''\<rparr>) example_env =
     Inr (example_loaded (example_args\<lparr>arg_split := ''test_anomaly_label_target''\<rparr>),
          example_env) \<and>
   arg_enlarge (example_args\<lparr>arg_split := ''test_anomaly_label_target''\<rparr>) \<and>
   arg_split (example_args\<lparr>arg_split := ''test_anomaly_label_target''\<rparr>) \<noteq> ''train'' \<and>
   get_original_gtmaps_normal_class
       (example_loaded (example_args\<lparr>arg_split := ''test_anomaly_label_target''\<rparr>))
       example_env =
     (Inr [[[[1]]], [[[0]]], [[[0]]]],
      (example_loaded (example_args\<lparr>arg_split := ''test_anomaly_label_target''\<rparr>))
         \<lparr>orig_gtmaps := Some [[[[1]]], [[[0]]], [[[0]]]]\<rparr>,
      example_env\<lparr>files := (files example_env)
         (''data/mvtec/admvtec_orig_cls3.pt'' \<mapsto> example_orig_archive)\<rparr>) \<and>
   files example_env
     (orig_data_file (example_loaded (example_args\<lparr>arg_split := ''test_anomaly_label_target''\<rparr>))
        3) = None \<and>
   orig_gtmaps (example_loaded (example_args\<lparr>arg_split := ''test_anomaly_label_target''\<rparr>))
     = None \<and>
   length (data (example_loaded (example_args\<lparr>arg_split := ''test_anomaly_label_target''\<rparr>)))
     = 30 \<and>
   length ([[[[1]]], [[[0]]], [[[0]]]] :: real list list list list) =
     length (test_categories example_tree ''carpet'') \<and>
   get_original_gtmaps_normal_class
       ((example_loaded (example_args\<lparr>arg_split := ''test_anomaly_label_target''\<rparr>))
          \<lparr>orig_gtmaps := Some [[[[1]]], [[[0]]], [[[0]]]]\<rparr>)
       example_env =
     (Inr [[[[1]]], [[[0]]], [[[0]]]],
      (example_loaded (example_args\<lparr>arg_split := ''test_anomaly_label_target''\<rparr>))
         \<lparr>orig_gtmaps := Some [[[[1]]], [[[0]]], [[[0]]]]\<rparr>,
      example_env)"
proof -
  let ?a = "example_args\<lparr>arg_split := ''test_anomaly_label_target''\<rparr>"
  let ?v = "example_loaded ?a"
  have r: "root_dir ?v = ''data''" by (simp add: example_loaded_root example_args_def)
  have i: "init ?a example_env = Inr (?v, example_env)"
    by (rule example_init) (simp_all add: example_args_def)
  have e: "arg_enlarge ?a" and s: "arg_split ?a \<noteq> ''train''"
    by (simp_all add: example_args_def)
  have acc: "get_original_gtmaps_normal_class ?v example_env =
     (Inr [[[[1]]], [[[0]]], [[[0]]]],
      ?v\<lparr>orig_gtmaps := Some [[[[1]]], [[[0]]], [[[0]]]]\<rparr>,
      example_env\<lparr>files := (files example_env)
         (''data/mvtec/admvtec_orig_cls3.pt'' \<mapsto> example_orig_archive)\<rparr>)"
    by (rule example_accessor) (simp_all add: example_args_def)
  have f: "files example_env (orig_data_file ?v 3) = None"
    by (simp add: example_orig_path [OF r] example_env_def)
  have n: "length (data ?v) = 30"
    by (simp add: example_loaded_def enlarge10_def load_split_def init_fields_def
          example_args_def example_archive_def length_repeat)
  have c: "length ([[[[1]]], [[[0]]], [[[0]]]] :: real list list list list) =
     length (test_categories example_tree ''carpet'')"
    by (simp add: example_categories)
  from original_gtmaps_not_enlarged [OF i e s acc] have
    none: "orig_gtmaps ?v = None" and
    memo: "get_original_gtmaps_normal_class
             (?v\<lparr>orig_gtmaps := Some [[[[1]]], [[[0]]], [[[0]]]]\<rparr>) example_env =
           (Inr [[[[1]]], [[[0]]], [[[0]]]],
            ?v\<lparr>orig_gtmaps := Some [[[[1]]], [[[0]]], [[[0]]]]\<rparr>, example_env)"
    by blast+
  from i e s acc f none n c memo show ?thesis by (intro conjI)
qed

end
